theory Spec2Isabelle
  imports Main
begin

section \<open>Python values\<close>

text \<open>
  The documents handled by \<^verbatim>\<open>deploy_rest.py\<close> are the values produced by
  \<^verbatim>\<open>json.load\<close> and \<^verbatim>\<open>response.json()\<close>. \<open>JNull\<close> is Python's
  \<^verbatim>\<open>None\<close>, \<open>JObj\<close> is a \<^verbatim>\<open>dict\<close> given by its items in insertion order
  (keys distinct, as in every dict), \<open>JArr\<close> is a \<^verbatim>\<open>list\<close>. Numbers are the
  integers; JSON floats are left out of the value domain.
\<close>

datatype json =
    JNull
  | JBool bool
  | JInt int
  | JStr string
  | JArr "json list"
  | JObj "(string \<times> json) list"

text \<open>Exceptions that one of the modelled functions lets escape or catches.\<close>

datatype py_exn =
    AttributeError
  | TypeError
  | KeyError
  | ClientAuthenticationError string
  | CalledProcessError string
  | OtherException string

text \<open>Truth value of a Python value, as \<^verbatim>\<open>if x:\<close> takes it.\<close>

fun truthy :: "json \<Rightarrow> bool" where
  "truthy JNull = False"
| "truthy (JBool b) = b"
| "truthy (JInt n) = (n \<noteq> 0)"
| "truthy (JStr s) = (s \<noteq> [])"
| "truthy (JArr xs) = (xs \<noteq> [])"
| "truthy (JObj kvs) = (kvs \<noteq> [])"

text \<open>
  Python's \<^verbatim>\<open>==\<close> on these values: structural, except that \<^verbatim>\<open>True == 1\<close> and
  \<^verbatim>\<open>False == 0\<close>, and that two dicts are equal when they have the same keys with
  equal values, whatever the order of their items.
\<close>

fun py_eq :: "json \<Rightarrow> json \<Rightarrow> bool"
  and py_eq_list :: "json list \<Rightarrow> json list \<Rightarrow> bool"
  and py_eq_item :: "string \<Rightarrow> json \<Rightarrow> (string \<times> json) list \<Rightarrow> bool"
  and py_eq_items :: "(string \<times> json) list \<Rightarrow> (string \<times> json) list \<Rightarrow> bool"
where
  "py_eq JNull b = (b = JNull)"
| "py_eq (JBool x) b =
     (case b of JBool y \<Rightarrow> x = y | JInt n \<Rightarrow> (if x then 1 else 0) = n | _ \<Rightarrow> False)"
| "py_eq (JInt m) b =
     (case b of JInt n \<Rightarrow> m = n | JBool y \<Rightarrow> m = (if y then 1 else 0) | _ \<Rightarrow> False)"
| "py_eq (JStr s) b = (b = JStr s)"
| "py_eq (JArr xs) b = (case b of JArr ys \<Rightarrow> py_eq_list xs ys | _ \<Rightarrow> False)"
| "py_eq (JObj xs) b =
     (case b of JObj ys \<Rightarrow> length xs = length ys \<and> py_eq_items xs ys | _ \<Rightarrow> False)"
| "py_eq_list [] ys = (ys = [])"
| "py_eq_list (x # xs) ys =
     (case ys of [] \<Rightarrow> False | y # ys' \<Rightarrow> py_eq x y \<and> py_eq_list xs ys')"
| "py_eq_item k v [] = False"
| "py_eq_item k v (kv # ys) =
     (if fst kv = k then py_eq v (snd kv) else py_eq_item k v ys)"
| "py_eq_items [] ys = True"
| "py_eq_items (kv # xs) ys = (py_eq_item (fst kv) (snd kv) ys \<and> py_eq_items xs ys)"

text \<open>\<^verbatim>\<open>x in [a, b, c]\<close>: some element of the list equals \<open>x\<close>.\<close>

fun py_in :: "json \<Rightarrow> json list \<Rightarrow> bool" where
  "py_in x [] = False"
| "py_in x (y # ys) = (py_eq x y \<or> py_in x ys)"

text \<open>
  \<^verbatim>\<open>d.get(key, default)\<close>. Only a dict has the method: on any other value the
  attribute lookup raises \<^verbatim>\<open>AttributeError\<close>.
\<close>

fun dict_get :: "json \<Rightarrow> string \<Rightarrow> json \<Rightarrow> py_exn + json" where
  "dict_get (JObj kvs) k d = Inr (case map_of kvs k of None \<Rightarrow> d | Some v \<Rightarrow> v)"
| "dict_get _ k d = Inl AttributeError"

text \<open>\<^verbatim>\<open>str(n)\<close> for a non-negative integer.\<close>

function show_nat :: "nat \<Rightarrow> string" where
  "show_nat n =
     (if n < 10 then [char_of (48 + n)]
      else show_nat (n div 10) @ [char_of (48 + n mod 10)])"
  by pat_completeness auto
termination
  by (relation "measure id") auto

section \<open>The outside world\<close>

text \<open>
  A request as \<^verbatim>\<open>requests.get/put/post(url, headers=..., json=...)\<close> sends it, and
  what comes back: either the call raises a \<^verbatim>\<open>requests.exceptions.RequestException\<close>
  (connection error, timeout, ...), or a response arrives with its status code, the value
  of \<^verbatim>\<open>response.headers.get('Location')\<close> and its parsed JSON body. Bodies that are
  not JSON are outside the model.
\<close>

datatype http_method = GET | PUT | POST

record request =
  rq_method :: http_method
  rq_url :: string
  rq_headers :: "(string \<times> string) list"
  rq_json :: "json option"

datatype reply =
    Raised string
  | Response nat "string option" json

text \<open>The two credentials that \<^verbatim>\<open>authenticate\<close> can ask for a token.\<close>

datatype credential_kind = AzureCliCredential | DefaultAzureCredential

text \<open>
  The effects of the program on the world, and what it prints during polling: the progress
  notice \<^verbatim>\<open>Deployment status: ...\<close> and the two failure messages of
  \<^verbatim>\<open>_poll_deployment\<close>. Other console output is not modelled.
\<close>

datatype event =
    Sent request
  | Slept nat
  | AskedToken credential_kind
  | StatusNotice json
  | PollFailed string
  | TimedOut nat

text \<open>
  The world is a clock (\<^verbatim>\<open>time.time()\<close>, counted in milliseconds and never running
  backwards), the number of HTTP requests sent so far and the trace of effects. The
  environment fixes how the control plane answers: the reply to the \<open>n\<close>-th request of the
  run, the time that request takes, and by how much the sleep after the \<open>n\<close>-th request
  oversleeps (\<^verbatim>\<open>time.sleep\<close> suspends for at least the time asked for). It also
  fixes what the other collaborators do: the two credentials' \<^verbatim>\<open>get_token\<close>, the
  \<^verbatim>\<open>az\<close> subprocesses (\<^verbatim>\<open>az account show\<close> with its standard output,
  \<^verbatim>\<open>az bicep build\<close> with its standard output parsed by \<^verbatim>\<open>json.loads\<close>)
  and the file system (\<^verbatim>\<open>Path.exists\<close>, and \<^verbatim>\<open>open\<close> followed by
  \<^verbatim>\<open>json.load\<close>). Each of them returns a value or raises.
\<close>

record world =
  clock :: nat
  sent :: nat
  trace :: "event list"

record env =
  respond :: "nat \<Rightarrow> request \<Rightarrow> reply"
  latency :: "nat \<Rightarrow> nat"
  oversleep :: "nat \<Rightarrow> nat"
  cli_get_token :: "py_exn + string"
  default_get_token :: "py_exn + string"
  az_account_show :: "py_exn + string"
  az_bicep_build :: "string \<Rightarrow> py_exn + json"
  path_exists :: "string \<Rightarrow> bool"
  json_load :: "string \<Rightarrow> py_exn + json"
  script_dir :: string

definition ticks_per_second :: nat where
  "ticks_per_second = 1000"

definition http :: "env \<Rightarrow> request \<Rightarrow> world \<Rightarrow> reply \<times> world" where
  "http e rq w =
     (respond e (sent w) rq,
      w\<lparr>clock := clock w + latency e (sent w),
        sent := sent w + 1,
        trace := trace w @ [Sent rq]\<rparr>)"

definition sleep :: "env \<Rightarrow> nat \<Rightarrow> world \<Rightarrow> world" where
  "sleep e secs w =
     w\<lparr>clock := clock w + ticks_per_second * secs + oversleep e (sent w),
       trace := trace w @ [Slept secs]\<rparr>"

definition say :: "event \<Rightarrow> world \<Rightarrow> world" where
  "say ev w = w\<lparr>trace := trace w @ [ev]\<rparr>"

text \<open>\<^verbatim>\<open>response.raise_for_status()\<close> raises \<^verbatim>\<open>HTTPError\<close> for 4xx and 5xx.\<close>

definition is_http_error :: "nat \<Rightarrow> bool" where
  "is_http_error sc = (400 \<le> sc \<and> sc < 600)"

definition http_error :: "nat \<Rightarrow> string" where
  "http_error sc = ''HTTPError '' @ show_nat sc"

section \<open>The deployer\<close>

record deployer =
  subscription_id :: string
  verbose :: bool
  access_token :: "string option"
  credential :: "credential_kind option"

definition API_VERSION_RESOURCES :: string where
  "API_VERSION_RESOURCES = ''2021-04-01''"

definition API_VERSION_DEPLOYMENTS :: string where
  "API_VERSION_DEPLOYMENTS = ''2021-04-01''"

definition init_deployer :: "string \<Rightarrow> bool \<Rightarrow> deployer" where
  "init_deployer sub v =
     \<lparr>subscription_id = sub, verbose = v, access_token = None, credential = None\<rparr>"

definition get_headers :: "deployer \<Rightarrow> (string \<times> string) list" where
  "get_headers d =
     [(''Authorization'',
         ''Bearer '' @ (case access_token d of None \<Rightarrow> ''None'' | Some t \<Rightarrow> t)),
      (''Content-Type'', ''application/json'')]"

definition resource_group_url :: "deployer \<Rightarrow> string \<Rightarrow> string" where
  "resource_group_url d rg =
     ''https://management.azure.com/subscriptions/'' @ subscription_id d
       @ ''/resourcegroups/'' @ rg @ ''?api-version='' @ API_VERSION_RESOURCES"

definition deployment_url :: "deployer \<Rightarrow> string \<Rightarrow> string \<Rightarrow> string" where
  "deployment_url d rg name =
     ''https://management.azure.com/subscriptions/'' @ subscription_id d
       @ ''/resourcegroups/'' @ rg
       @ ''/providers/Microsoft.Resources/deployments/'' @ name
       @ ''?api-version='' @ API_VERSION_DEPLOYMENTS"

definition get_request :: "deployer \<Rightarrow> string \<Rightarrow> request" where
  "get_request d url =
     \<lparr>rq_method = GET, rq_url = url, rq_headers = get_headers d, rq_json = None\<rparr>"

subsection \<open>Resource-status polling\<close>

text \<open>
  \<^verbatim>\<open>status = result.get('properties', {}).get('provisioningState')\<close>
\<close>

definition provisioning_state :: "json \<Rightarrow> py_exn + json" where
  "provisioning_state result =
     (case dict_get result ''properties'' (JObj []) of
        Inl x \<Rightarrow> Inl x
      | Inr props \<Rightarrow> dict_get props ''provisioningState'' JNull)"

definition terminal_states :: "json list" where
  "terminal_states = [JStr ''Succeeded'', JStr ''Failed'', JStr ''Canceled'']"

text \<open>
  The body of one iteration of \<^verbatim>\<open>_poll_deployment\<close> once the status has been read:
  the notice when the status is not the last one seen, then the exit test.
\<close>

definition note_status :: "json \<Rightarrow> json \<Rightarrow> world \<Rightarrow> json \<times> world" where
  "note_status status last_status w =
     (if \<not> py_eq status last_status then (status, say (StatusNotice status) w)
      else (last_status, w))"

text \<open>
  The loop of \<^verbatim>\<open>_poll_deployment\<close>. \<open>None\<close> stands for a run that never returns;
  the result is the returned value (\<open>JNull\<close> for \<^verbatim>\<open>None\<close>) or the exception that
  escapes.
\<close>

partial_function (option) poll_deployment_loop ::
  "env \<Rightarrow> request \<Rightarrow> nat \<Rightarrow> nat \<Rightarrow> nat \<Rightarrow> json \<Rightarrow> world \<Rightarrow> ((py_exn + json) \<times> world) option"
where
  "poll_deployment_loop e rq timeout poll_interval start_time last_status w =
     (if clock w - start_time < ticks_per_second * timeout then
        (case http e rq w of
           (Raised msg, w1) \<Rightarrow> Some (Inr JNull, say (PollFailed msg) w1)
         | (Response sc loc result, w1) \<Rightarrow>
             if is_http_error sc then Some (Inr JNull, say (PollFailed (http_error sc)) w1)
             else
               (case provisioning_state result of
                  Inl x \<Rightarrow> Some (Inl x, w1)
                | Inr status \<Rightarrow>
                    (case note_status status last_status w1 of
                       (last_status', w2) \<Rightarrow>
                         if py_in status terminal_states then Some (Inr result, w2)
                         else poll_deployment_loop e rq timeout poll_interval start_time
                                last_status' (sleep e poll_interval w2))))
      else Some (Inr JNull, say (TimedOut timeout) w))"

declare poll_deployment_loop.simps [code]

definition poll_deployment ::
  "env \<Rightarrow> deployer \<Rightarrow> string \<Rightarrow> string \<Rightarrow> nat \<Rightarrow> nat \<Rightarrow> world
     \<Rightarrow> ((py_exn + json) \<times> world) option"
where
  "poll_deployment e d resource_group_name deployment_name timeout poll_interval w =
     poll_deployment_loop e
       (get_request d (deployment_url d resource_group_name deployment_name))
       timeout poll_interval (clock w) JNull w"

subsection \<open>Location-header polling\<close>

partial_function (option) poll_async_loop ::
  "env \<Rightarrow> request \<Rightarrow> nat \<Rightarrow> nat \<Rightarrow> nat \<Rightarrow> world \<Rightarrow> (json \<times> world) option"
where
  "poll_async_loop e rq timeout poll_interval start_time w =
     (if clock w - start_time < ticks_per_second * timeout then
        (case http e rq w of
           (Raised msg, w1) \<Rightarrow> Some (JNull, w1)
         | (Response sc loc payload, w1) \<Rightarrow>
             if sc = 200 then Some (payload, w1)
             else if sc = 202 then
               poll_async_loop e rq timeout poll_interval start_time
                 (sleep e poll_interval w1)
             else Some (JNull, w1))
      else Some (JNull, w))"

declare poll_async_loop.simps [code]

definition poll_async_operation ::
  "env \<Rightarrow> deployer \<Rightarrow> string \<Rightarrow> nat \<Rightarrow> nat \<Rightarrow> world \<Rightarrow> (json \<times> world) option"
where
  "poll_async_operation e d location_url timeout poll_interval w =
     poll_async_loop e (get_request d location_url) timeout poll_interval (clock w) w"

subsection \<open>Authentication\<close>

text \<open>
  \<^verbatim>\<open>authenticate\<close>: the inner handler catches \<^verbatim>\<open>ClientAuthenticationError\<close>
  only, the outer one every \<^verbatim>\<open>Exception\<close>. The method sets \<^verbatim>\<open>self.credential\<close>
  before it asks for the token.
\<close>

definition is_client_authentication_error :: "py_exn \<Rightarrow> bool" where
  "is_client_authentication_error x =
     (case x of ClientAuthenticationError msg \<Rightarrow> True | _ \<Rightarrow> False)"

definition authenticate :: "env \<Rightarrow> deployer \<Rightarrow> world \<Rightarrow> bool \<times> deployer \<times> world" where
  "authenticate e d w =
     (let d1 = d\<lparr>credential := Some AzureCliCredential\<rparr>;
          w1 = say (AskedToken AzureCliCredential) w
      in case cli_get_token e of
           Inr token \<Rightarrow> (True, d1\<lparr>access_token := Some token\<rparr>, w1)
         | Inl x \<Rightarrow>
             if is_client_authentication_error x then
               (let d2 = d1\<lparr>credential := Some DefaultAzureCredential\<rparr>;
                    w2 = say (AskedToken DefaultAzureCredential) w1
                in case default_get_token e of
                     Inr token \<Rightarrow> (True, d2\<lparr>access_token := Some token\<rparr>, w2)
                   | Inl y \<Rightarrow> (False, d2, w2))
             else (False, d1, w1))"

subsection \<open>Resource groups\<close>

definition subscription_url :: "deployer \<Rightarrow> string" where
  "subscription_url d =
     ''https://management.azure.com/subscriptions/'' @ subscription_id d
       @ ''?api-version='' @ API_VERSION_RESOURCES"

definition get_subscription_info :: "env \<Rightarrow> deployer \<Rightarrow> world \<Rightarrow> json \<times> world" where
  "get_subscription_info e d w =
     (case http e (get_request d (subscription_url d)) w of
        (Raised msg, w1) \<Rightarrow> (JNull, w1)
      | (Response sc loc body, w1) \<Rightarrow>
          if is_http_error sc then (JNull, w1) else (body, w1))"

text \<open>
  \<^verbatim>\<open>check_resource_group_exists\<close>. The result is the returned boolean, or the
  exception that escapes the method.
\<close>

definition check_resource_group_exists ::
  "env \<Rightarrow> deployer \<Rightarrow> string \<Rightarrow> world \<Rightarrow> (py_exn + bool) \<times> world"
where
  "check_resource_group_exists e d resource_group_name w =
     (case http e (get_request d (resource_group_url d resource_group_name)) w of
        (Raised msg, w1) \<Rightarrow> (Inr False, w1)
      | (Response sc loc body, w1) \<Rightarrow> (Inr (sc = 200), w1))"

definition create_resource_group ::
  "env \<Rightarrow> deployer \<Rightarrow> string \<Rightarrow> string \<Rightarrow> world \<Rightarrow> bool \<times> world"
where
  "create_resource_group e d resource_group_name location w =
     (case http e
             \<lparr>rq_method = PUT, rq_url = resource_group_url d resource_group_name,
              rq_headers = get_headers d,
              rq_json = Some (JObj [(''location'', JStr location)])\<rparr> w of
        (Raised msg, w1) \<Rightarrow> (False, w1)
      | (Response sc loc body, w1) \<Rightarrow> (\<not> is_http_error sc, w1))"

subsection \<open>Template compilation and parameter loading\<close>

text \<open>\<^verbatim>\<open>compile_bicep\<close>: both handlers return \<^verbatim>\<open>None\<close>.\<close>

definition compile_bicep :: "env \<Rightarrow> string \<Rightarrow> json" where
  "compile_bicep e bicep_file =
     (case az_bicep_build e bicep_file of Inl x \<Rightarrow> JNull | Inr template \<Rightarrow> template)"

text \<open>\<^verbatim>\<open>needle in haystack\<close> for two strings.\<close>

fun py_substring :: "string \<Rightarrow> string \<Rightarrow> bool" where
  "py_substring s [] = (s = [])"
| "py_substring s (c # cs) = (take (length s) (c # cs) = s \<or> py_substring s cs)"

text \<open>
  \<^verbatim>\<open>key in x\<close> for a string key: key membership in a dict, element membership in a
  list, substring test in a string, \<^verbatim>\<open>TypeError\<close> on anything else.
\<close>

fun py_contains :: "json \<Rightarrow> string \<Rightarrow> py_exn + bool" where
  "py_contains (JObj kvs) k = Inr (map_of kvs k \<noteq> None)"
| "py_contains (JArr xs) k = Inr (py_in (JStr k) xs)"
| "py_contains (JStr s) k = Inr (py_substring k s)"
| "py_contains _ k = Inl TypeError"

text \<open>\<^verbatim>\<open>x[key]\<close> for a string key.\<close>

fun py_getitem :: "json \<Rightarrow> string \<Rightarrow> py_exn + json" where
  "py_getitem (JObj kvs) k = (case map_of kvs k of None \<Rightarrow> Inl KeyError | Some v \<Rightarrow> Inr v)"
| "py_getitem _ k = Inl TypeError"

text \<open>\<^verbatim>\<open>x.items()\<close>.\<close>

fun py_items :: "json \<Rightarrow> py_exn + (string \<times> json) list" where
  "py_items (JObj kvs) = Inr kvs"
| "py_items _ = Inl AttributeError"

text \<open>\<^verbatim>\<open>{k: v.get('value') for k, v in items}\<close>\<close>

fun unwrap_values :: "(string \<times> json) list \<Rightarrow> py_exn + (string \<times> json) list" where
  "unwrap_values [] = Inr []"
| "unwrap_values (kv # kvs) =
     (case dict_get (snd kv) ''value'' JNull of
        Inl x \<Rightarrow> Inl x
      | Inr u \<Rightarrow>
          (case unwrap_values kvs of
             Inl x \<Rightarrow> Inl x
           | Inr rest \<Rightarrow> Inr ((fst kv, u) # rest)))"

text \<open>
  \<^verbatim>\<open>load_parameters\<close>: every exception of the body is caught and turned into
  \<^verbatim>\<open>None\<close>.
\<close>

definition load_parameters :: "env \<Rightarrow> string \<Rightarrow> json" where
  "load_parameters e parameter_file =
     (case json_load e parameter_file of
        Inl x \<Rightarrow> JNull
      | Inr params \<Rightarrow>
          (case py_contains params ''parameters'' of
             Inl x \<Rightarrow> JNull
           | Inr True \<Rightarrow>
               (case py_getitem params ''parameters'' of
                  Inl x \<Rightarrow> JNull
                | Inr wrapped \<Rightarrow>
                    (case py_items wrapped of
                       Inl x \<Rightarrow> JNull
                     | Inr items \<Rightarrow>
                         (case unwrap_values items of
                            Inl x \<Rightarrow> JNull
                          | Inr flat \<Rightarrow> JObj flat)))
           | Inr False \<Rightarrow> params))"

subsection \<open>Validation and deployment\<close>

definition deployment_body :: "json \<Rightarrow> json \<Rightarrow> json" where
  "deployment_body template parameters =
     JObj [(''properties'',
            JObj [(''template'', template),
                  (''parameters'', parameters),
                  (''mode'', JStr ''Incremental'')])]"

definition whatif_url :: "deployer \<Rightarrow> string \<Rightarrow> nat \<Rightarrow> string" where
  "whatif_url d rg now =
     ''https://management.azure.com/subscriptions/'' @ subscription_id d
       @ ''/resourcegroups/'' @ rg
       @ ''/providers/Microsoft.Resources/deployments/validation-'' @ show_nat now
       @ ''/whatIf?api-version='' @ API_VERSION_DEPLOYMENTS"

text \<open>
  \<^verbatim>\<open>validate_deployment\<close>. \<^verbatim>\<open>int(time.time())\<close> is the clock in whole seconds.
  The poller is called with its default budget, 300 and 5.
\<close>

definition validate_deployment ::
  "env \<Rightarrow> deployer \<Rightarrow> string \<Rightarrow> json \<Rightarrow> json \<Rightarrow> world \<Rightarrow> (bool \<times> world) option"
where
  "validate_deployment e d resource_group_name template parameters w =
     (case http e
             \<lparr>rq_method = POST,
              rq_url = whatif_url d resource_group_name (clock w div ticks_per_second),
              rq_headers = get_headers d,
              rq_json = Some (deployment_body template parameters)\<rparr> w of
        (Raised msg, w1) \<Rightarrow> Some (False, w1)
      | (Response sc loc body, w1) \<Rightarrow>
          if is_http_error sc then Some (False, w1)
          else if sc = 202 then
            (case loc of
               None \<Rightarrow> Some (False, w1)
             | Some location \<Rightarrow>
                 if location \<noteq> [] then
                   (case poll_async_operation e d location 300 5 w1 of
                      None \<Rightarrow> None
                    | Some (result, w2) \<Rightarrow>
                        if truthy result then Some (True, w2) else Some (False, w2))
                 else Some (False, w1))
          else Some (True, w1))"

text \<open>
  \<^verbatim>\<open>result and result.get('properties', {}).get('provisioningState') == 'Succeeded'\<close>
\<close>

definition deployment_succeeded :: "json \<Rightarrow> py_exn + bool" where
  "deployment_succeeded result =
     (if truthy result then
        (case provisioning_state result of
           Inl x \<Rightarrow> Inl x
         | Inr status \<Rightarrow> Inr (py_eq status (JStr ''Succeeded'')))
      else Inr False)"

text \<open>\<^verbatim>\<open>result.get('properties', {}).get('error', {})\<close>\<close>

definition deployment_error :: "json \<Rightarrow> py_exn + json" where
  "deployment_error result =
     (case dict_get result ''properties'' (JObj []) of
        Inl x \<Rightarrow> Inl x
      | Inr props \<Rightarrow> dict_get props ''error'' (JObj []))"

text \<open>
  \<^verbatim>\<open>deploy_template\<close>. The poller is called with its default budget, 1800 and 10.
\<close>

definition deploy_template ::
  "env \<Rightarrow> deployer \<Rightarrow> string \<Rightarrow> string \<Rightarrow> json \<Rightarrow> json \<Rightarrow> world
     \<Rightarrow> ((py_exn + json) \<times> world) option"
where
  "deploy_template e d resource_group_name deployment_name template parameters w =
     (case http e
             \<lparr>rq_method = PUT,
              rq_url = deployment_url d resource_group_name deployment_name,
              rq_headers = get_headers d,
              rq_json = Some (deployment_body template parameters)\<rparr> w of
        (Raised msg, w1) \<Rightarrow> Some (Inr JNull, w1)
      | (Response sc loc body, w1) \<Rightarrow>
          if is_http_error sc then Some (Inr JNull, w1)
          else
            (case poll_deployment e d resource_group_name deployment_name 1800 10 w1 of
               None \<Rightarrow> None
             | Some (Inl x, w2) \<Rightarrow> Some (Inl x, w2)
             | Some (Inr result, w2) \<Rightarrow>
                 (case deployment_succeeded result of
                    Inl x \<Rightarrow> Some (Inl x, w2)
                  | Inr True \<Rightarrow> Some (Inr result, w2)
                  | Inr False \<Rightarrow>
                      if truthy result then
                        (case deployment_error result of
                           Inl x \<Rightarrow> Some (Inl x, w2)
                         | Inr err \<Rightarrow> Some (Inr JNull, w2))
                      else Some (Inr JNull, w2))))"

definition get_deployment_outputs ::
  "env \<Rightarrow> deployer \<Rightarrow> string \<Rightarrow> string \<Rightarrow> world \<Rightarrow> (py_exn + json) \<times> world"
where
  "get_deployment_outputs e d resource_group_name deployment_name w =
     (case http e (get_request d (deployment_url d resource_group_name deployment_name)) w of
        (Raised msg, w1) \<Rightarrow> (Inr JNull, w1)
      | (Response sc loc result, w1) \<Rightarrow>
          if is_http_error sc then (Inr JNull, w1)
          else
            (case dict_get result ''properties'' (JObj []) of
               Inl x \<Rightarrow> (Inl x, w1)
             | Inr props \<Rightarrow> (dict_get props ''outputs'' (JObj []), w1)))"

section \<open>The command-line driver\<close>

text \<open>The parsed command line.\<close>

record args =
  arg_resource_group :: string
  arg_location :: string
  arg_parameter_file :: string
  arg_subscription_id :: "string option"
  arg_what_if :: bool
  arg_verbose :: bool

text \<open>\<^verbatim>\<open>s.strip()\<close>\<close>

definition is_space :: "char \<Rightarrow> bool" where
  "is_space c = (of_char c \<in> {9, 10, 11, 12, 13, 28, 29, 30, 31, 32 :: nat})"

definition strip :: "string \<Rightarrow> string" where
  "strip s = rev (dropWhile is_space (rev (dropWhile is_space s)))"

text \<open>\<^verbatim>\<open>{k: {"value": v} for k, v in parameters.items()}\<close>\<close>

definition wrap_values :: "(string \<times> json) list \<Rightarrow> (string \<times> json) list" where
  "wrap_values kvs = map (\<lambda>kv. (fst kv, JObj [(''value'', snd kv)])) kvs"

text \<open>
  The loop over \<^verbatim>\<open>outputs.items()\<close> that prints
  \<^verbatim>\<open>value.get('value', 'N/A')\<close> for each output.
\<close>

fun print_outputs :: "(string \<times> json) list \<Rightarrow> py_exn + unit" where
  "print_outputs [] = Inr ()"
| "print_outputs (kv # kvs) =
     (case dict_get (snd kv) ''value'' (JStr ''N/A'') of
        Inl x \<Rightarrow> Inl x
      | Inr v \<Rightarrow> print_outputs kvs)"

text \<open>
  The branch of \<^verbatim>\<open>main\<close> taken when \<^verbatim>\<open>deploy_template\<close> returned a truthy
  result: the outputs are fetched and shown, and \<^verbatim>\<open>main\<close> returns 0.
\<close>

definition show_outputs ::
  "env \<Rightarrow> deployer \<Rightarrow> string \<Rightarrow> string \<Rightarrow> world \<Rightarrow> (py_exn + int) \<times> world"
where
  "show_outputs e d resource_group_name deployment_name w =
     (case get_deployment_outputs e d resource_group_name deployment_name w of
        (Inl x, w1) \<Rightarrow> (Inl x, w1)
      | (Inr outputs, w1) \<Rightarrow>
          if truthy outputs then
            (case py_items outputs of
               Inl x \<Rightarrow> (Inl x, w1)
             | Inr items \<Rightarrow>
                 (case print_outputs items of
                    Inl x \<Rightarrow> (Inl x, w1)
                  | Inr u \<Rightarrow> (Inr 0, w1)))
          else (Inr 0, w1))"

text \<open>
  The last step of \<^verbatim>\<open>main\<close>: what-if mode or the deployment itself. The value of
  \<^verbatim>\<open>validate_deployment\<close> is not looked at.
\<close>

definition run_operation ::
  "env \<Rightarrow> args \<Rightarrow> deployer \<Rightarrow> json \<Rightarrow> json \<Rightarrow> world \<Rightarrow> ((py_exn + int) \<times> world) option"
where
  "run_operation e a d template arm_parameters w =
     (if arg_what_if a then
        (case validate_deployment e d (arg_resource_group a) template arm_parameters w of
           None \<Rightarrow> None
         | Some (ok, w1) \<Rightarrow> Some (Inr 0, w1))
      else
        (let deployment_name = ''sentinel-deployment-'' @ show_nat (clock w div ticks_per_second)
         in case deploy_template e d (arg_resource_group a) deployment_name template
                   arm_parameters w of
              None \<Rightarrow> None
            | Some (Inl x, w1) \<Rightarrow> Some (Inl x, w1)
            | Some (Inr result, w1) \<Rightarrow>
                if truthy result then
                  Some (show_outputs e d (arg_resource_group a) deployment_name w1)
                else Some (Inr 1, w1)))"

text \<open>
  \<^verbatim>\<open>main\<close> from the resource-group check on (the deployer is authenticated and the
  parameters are loaded).
\<close>

definition provision_and_run ::
  "env \<Rightarrow> args \<Rightarrow> deployer \<Rightarrow> json \<Rightarrow> world \<Rightarrow> ((py_exn + int) \<times> world) option"
where
  "provision_and_run e a d arm_parameters w =
     (case check_resource_group_exists e d (arg_resource_group a) w of
        (Inl x, w1) \<Rightarrow> Some (Inl x, w1)
      | (Inr exists, w1) \<Rightarrow>
          (case (if \<not> exists
                 then create_resource_group e d (arg_resource_group a) (arg_location a) w1
                 else (True, w1)) of
             (created, w2) \<Rightarrow>
               if \<not> created then Some (Inr 1, w2)
               else
                 (let bicep_file = script_dir e @ ''/main.bicep''
                  in if \<not> path_exists e bicep_file then Some (Inr 1, w2)
                     else
                       (let template = compile_bicep e bicep_file
                        in if template = JNull then Some (Inr 1, w2)
                           else run_operation e a d template arm_parameters w2))))"

text \<open>
  The subscription taken from \<^verbatim>\<open>az account show\<close> when the command line gives none
  (\<^verbatim>\<open>if not subscription_id\<close>: absent or empty).
\<close>

definition default_subscription :: "env \<Rightarrow> py_exn + string" where
  "default_subscription e =
     (case az_account_show e of Inr stdout \<Rightarrow> Inr (strip stdout) | Inl x \<Rightarrow> Inl x)"

text \<open>
  \<^verbatim>\<open>main\<close>. The result is the value it returns, or the exception that escapes it;
  only \<^verbatim>\<open>CalledProcessError\<close> is caught around \<^verbatim>\<open>az account show\<close>.
\<close>

definition main :: "env \<Rightarrow> args \<Rightarrow> world \<Rightarrow> ((py_exn + int) \<times> world) option" where
  "main e a w =
     (case (case arg_subscription_id a of
              None \<Rightarrow> default_subscription e
            | Some given \<Rightarrow> if given = [] then default_subscription e else Inr given) of
        Inl x \<Rightarrow>
          (case x of
             CalledProcessError msg \<Rightarrow> Some (Inr 1, w)
           | _ \<Rightarrow> Some (Inl x, w))
      | Inr sub \<Rightarrow>
          (case authenticate e (init_deployer sub (arg_verbose a)) w of
             (authenticated, d, w1) \<Rightarrow>
               if \<not> authenticated then Some (Inr 1, w1)
               else
                 (case get_subscription_info e d w1 of
                    (sub_info, w2) \<Rightarrow>
                      (case (if truthy sub_info
                             then dict_get sub_info ''displayName'' (JStr ''Unknown'')
                             else Inr JNull) of
                         Inl x \<Rightarrow> Some (Inl x, w2)
                       | Inr shown \<Rightarrow>
                           if \<not> path_exists e (arg_parameter_file a) then Some (Inr 1, w2)
                           else
                             (let parameters = load_parameters e (arg_parameter_file a)
                              in if parameters = JNull then Some (Inr 1, w2)
                                 else
                                   (case py_items parameters of
                                      Inl x \<Rightarrow> Some (Inl x, w2)
                                    | Inr items \<Rightarrow>
                                        provision_and_run e a d (JObj (wrap_values items))
                                          w2))))))"

text \<open>
  \<^verbatim>\<open>sys.exit(main())\<close>: the status of the process is the value returned by
  \<^verbatim>\<open>main\<close>, and 1 when an exception escapes.
\<close>

definition exit_status :: "(py_exn + int) \<Rightarrow> int" where
  "exit_status r = (case r of Inl x \<Rightarrow> 1 | Inr n \<Rightarrow> n)"

section \<open>Notions used to state the properties\<close>

text \<open>\<open>ceil_div a b\<close> is \<open>a / b\<close> rounded up.\<close>

definition ceil_div :: "nat \<Rightarrow> nat \<Rightarrow> nat" where
  "ceil_div a b = (a + b - 1) div b"

text \<open>
  A reply to a status fetch of \<^verbatim>\<open>_poll_deployment\<close> that keeps the loop going: no
  exception, and a provisioning state outside the terminal set.
\<close>

definition transient_reply :: "reply \<Rightarrow> bool" where
  "transient_reply r =
     (case r of
        Raised msg \<Rightarrow> False
      | Response sc loc result \<Rightarrow>
          \<not> is_http_error sc \<and>
          (case provisioning_state result of
             Inl x \<Rightarrow> False
           | Inr status \<Rightarrow> \<not> py_in status terminal_states))"

text \<open>
  A status fetch of \<^verbatim>\<open>_poll_deployment\<close> raises a \<^verbatim>\<open>RequestException\<close> when
  \<^verbatim>\<open>requests.get\<close> raises or when \<^verbatim>\<open>raise_for_status\<close> does.
\<close>

definition status_fetch_raises :: "reply \<Rightarrow> bool" where
  "status_fetch_raises r =
     (case r of Raised msg \<Rightarrow> True | Response sc loc result \<Rightarrow> is_http_error sc)"

text \<open>A fetch of \<^verbatim>\<open>_poll_async_operation\<close> raises when \<^verbatim>\<open>requests.get\<close> does.\<close>

definition follow_up_raises :: "reply \<Rightarrow> bool" where
  "follow_up_raises r = (case r of Raised msg \<Rightarrow> True | Response sc loc payload \<Rightarrow> False)"

text \<open>
  A reply to a status fetch of \<^verbatim>\<open>_poll_deployment\<close> whose provisioning state is one
  of Succeeded, Failed and Canceled, and the document a reply carries.
\<close>

definition terminal_reply :: "reply \<Rightarrow> bool" where
  "terminal_reply r =
     (case r of
        Raised msg \<Rightarrow> False
      | Response sc loc result \<Rightarrow>
          \<not> is_http_error sc \<and>
          (case provisioning_state result of
             Inl x \<Rightarrow> False
           | Inr status \<Rightarrow> py_in status terminal_states))"

definition reply_body :: "reply \<Rightarrow> json" where
  "reply_body r = (case r of Raised msg \<Rightarrow> JNull | Response sc loc result \<Rightarrow> result)"

text \<open>
  What a reply means to \<^verbatim>\<open>_poll_async_operation\<close>: status 202 is pending; any other
  reply ends the loop, with the payload for status 200 and with \<^verbatim>\<open>None\<close> otherwise.
\<close>

definition follow_up_pending :: "reply \<Rightarrow> bool" where
  "follow_up_pending r =
     (case r of Raised msg \<Rightarrow> False | Response sc loc payload \<Rightarrow> sc = 202)"

definition follow_up_value :: "reply \<Rightarrow> json" where
  "follow_up_value r =
     (case r of
        Raised msg \<Rightarrow> JNull
      | Response sc loc payload \<Rightarrow> if sc = 200 then payload else JNull)"

text \<open>
  What \<^verbatim>\<open>v.get('value')\<close> yields for an entry \<open>v\<close> of a wrapped parameter file, and
  the entries on which it is defined.
\<close>

definition is_dict :: "json \<Rightarrow> bool" where
  "is_dict v = (case v of JObj members \<Rightarrow> True | _ \<Rightarrow> False)"

definition value_of :: "json \<Rightarrow> json" where
  "value_of v =
     (case v of
        JObj members \<Rightarrow> (case map_of members ''value'' of None \<Rightarrow> JNull | Some u \<Rightarrow> u)
      | _ \<Rightarrow> JNull)"

section \<open>Sample runs\<close>

text \<open>A deployment that stays in the state \<open>Running\<close> for ever.\<close>

definition running_doc :: json where
  "running_doc = JObj [(''properties'', JObj [(''provisioningState'', JStr ''Running'')])]"

definition quiet_env :: env where
  "quiet_env =
     \<lparr>respond = (\<lambda>n rq. Response 200 None running_doc),
      latency = (\<lambda>n. 250),
      oversleep = (\<lambda>n. 0),
      cli_get_token = Inr ''token'',
      default_get_token = Inr ''token'',
      az_account_show = Inr ''sub'',
      az_bicep_build = (\<lambda>p. Inr (JObj [(''resources'', JArr [])])),
      path_exists = (\<lambda>p. True),
      json_load = (\<lambda>p. Inr (JObj [])),
      script_dir = ''/opt/sentinel''\<rparr>"

definition some_deployer :: deployer where
  "some_deployer =
     \<lparr>subscription_id = ''sub'', verbose = False, access_token = Some ''token'',
      credential = Some AzureCliCredential\<rparr>"

definition world0 :: world where
  "world0 = \<lparr>clock = 1700000000000, sent = 0, trace = []\<rparr>"

text \<open>
  A control plane that answers two fetches (status 202, state \<open>Running\<close>) and then
  drops the connection.
\<close>

definition flaky_env :: env where
  "flaky_env =
     quiet_env\<lparr>respond :=
       (\<lambda>n rq. if n < 2 then Response 202 None running_doc else Raised ''connection reset'')\<rparr>"

text \<open>A deployment that is running at the first two fetches and has succeeded at the third.\<close>

definition succeeded_doc :: json where
  "succeeded_doc =
     JObj [(''properties'',
            JObj [(''provisioningState'', JStr ''Succeeded''),
                  (''outputs'', JObj [(''workspaceId'', JObj [(''value'', JStr ''ws-1'')])])])]"

definition happy_env :: env where
  "happy_env =
     quiet_env\<lparr>respond :=
       (\<lambda>n rq. if n < 2 then Response 200 None running_doc else Response 200 None succeeded_doc)\<rparr>"

text \<open>A validation that is pending at the first two fetches and resolved at the third.\<close>

definition preview_doc :: json where
  "preview_doc = JObj [(''status'', JStr ''Succeeded''), (''changes'', JArr [])]"

definition preview_env :: env where
  "preview_env =
     quiet_env\<lparr>respond :=
       (\<lambda>n rq. if n < 2 then Response 202 None JNull else Response 200 None preview_doc)\<rparr>"

text \<open>
  Three control planes: one whose answer (status 202, state \<open>Running\<close>) takes half an hour
  to arrive, one that cannot be reached, and one that answers every request with status 500.
\<close>

definition stalled_env :: env where
  "stalled_env =
     quiet_env\<lparr>respond := (\<lambda>n rq. Response 202 None running_doc),
               latency := (\<lambda>n. 1800000)\<rparr>"

definition down_env :: env where
  "down_env = quiet_env\<lparr>respond := (\<lambda>n rq. Raised ''connection refused'')\<rparr>"

definition failed_env :: env where
  "failed_env = quiet_env\<lparr>respond := (\<lambda>n rq. Response 500 None JNull)\<rparr>"

text \<open>The two parameter files of the specification, and a larger wrapped one.\<close>

definition wrapped_file :: json where
  "wrapped_file = JObj [(''parameters'', JObj [(''x'', JObj [(''value'', JInt 5)])])]"

definition flat_file :: json where
  "flat_file = JObj [(''x'', JInt 5)]"

definition arm_file :: json where
  "arm_file =
     JObj [(''$schema'', JStr ''https://schema.management.azure.com/deploymentParameters.json''),
           (''contentVersion'', JStr ''1.0.0.0''),
           (''parameters'',
              JObj [(''workspaceName'', JObj [(''value'', JStr ''sentinel-ws'')]),
                    (''retentionInDays'', JObj [(''value'', JInt 90)])])]"

text \<open>Credential providers: the first fails to authenticate, or fails in some other way.\<close>

definition not_logged_in_env :: env where
  "not_logged_in_env =
     quiet_env\<lparr>cli_get_token := Inl (ClientAuthenticationError ''Please run az login''),
               default_get_token := Inr ''managed-identity-token''\<rparr>"

definition broken_cli_env :: env where
  "broken_cli_env =
     quiet_env\<lparr>cli_get_token := Inl (OtherException ''az: command timed out''),
               default_get_token := Inr ''managed-identity-token''\<rparr>"

text \<open>A validation that is accepted with status 202 and no \<^verbatim>\<open>Location\<close> header.\<close>

definition no_location_env :: env where
  "no_location_env = quiet_env\<lparr>respond := (\<lambda>n rq. Response 202 None JNull)\<rparr>"

text \<open>
  A control plane that answers every \<^verbatim>\<open>GET\<close> with status 200 and rejects every
  submission with status 400, and the command line \<^verbatim>\<open>-g rg-sentinel-prod -s sub -w\<close>.
\<close>

definition rejecting_env :: env where
  "rejecting_env =
     quiet_env\<lparr>respond :=
       (\<lambda>n rq. if rq_method rq = GET
                then Response 200 None (JObj [(''displayName'', JStr ''Production'')])
                else Response 400 None
                       (JObj [(''error'', JObj [(''code'', JStr ''InvalidTemplate'')])]))\<rparr>"

definition what_if_args :: args where
  "what_if_args =
     \<lparr>arg_resource_group = ''rg-sentinel-prod'', arg_location = ''eastus'',
      arg_parameter_file = ''parameters.json'', arg_subscription_id = Some ''sub'',
      arg_what_if = True, arg_verbose = False\<rparr>"

section \<open>Basic facts about the world\<close>

lemma ceil_div_pos: "0 < b \<Longrightarrow> 0 < a \<Longrightarrow> 0 < ceil_div a b"
  unfolding ceil_div_def by (simp add: div_greater_zero_iff)

lemma ceil_div_step:
  assumes "0 < b" "0 < a" "a' + b \<le> a \<or> a' = 0"
  shows "Suc (ceil_div a' b) \<le> ceil_div a b"
proof (cases "a' = 0")
  case True
  then have "ceil_div a' b = 0" using assms(1) by (simp add: ceil_div_def)
  then show ?thesis using ceil_div_pos [OF assms(1,2)] by simp
next
  case False
  then have le: "a' + b \<le> a" using assms(3) by simp
  define x where "x = a' + b - 1"
  have "Suc (x div b) = (x + b) div b"
    using assms(1) div_add_self2 [of b x] by simp
  also have "\<dots> \<le> (a + b - 1) div b"
    using le by (intro div_le_mono) (simp add: x_def)
  finally show ?thesis by (simp add: ceil_div_def x_def)
qed

lemma ceil_div_scale:
  assumes "0 < k" "0 < b"
  shows "ceil_div (k * a) (k * b) = ceil_div a b"
proof -
  have e: "k * a + k * b - 1 = k * (a + b - 1) + (k - 1)"
  proof -
    have "0 < a + b" using assms(2) by simp
    then obtain m where m: "a + b = Suc m" by (cases "a + b") auto
    have "k * a + k * b = k * (a + b)" by (simp add: distrib_left)
    also have "\<dots> = k * m + k" using m by simp
    finally have "k * a + k * b - 1 = k * m + (k - 1)" using assms(1) by simp
    then show ?thesis using m by simp
  qed
  define x y where "x = a + b - 1" and "y = k - 1"
  have y: "y < k" using assms(1) by (simp add: y_def)
  have "(k * a + k * b - 1) div (k * b) = ((k * x + y) div k) div b"
    unfolding e x_def y_def by (simp only: div_mult2_eq)
  also have "(k * x + y) div k = x"
    using y by simp
  finally show ?thesis by (simp add: ceil_div_def x_def)
qed

lemma sent_http [simp]: "sent (snd (http e rq w)) = Suc (sent w)"
  by (simp add: http_def)

lemma clock_http [simp]: "clock (snd (http e rq w)) = clock w + latency e (sent w)"
  by (simp add: http_def)

lemma fst_http [simp]: "fst (http e rq w) = respond e (sent w) rq"
  by (simp add: http_def)

lemma trace_http [simp]: "trace (snd (http e rq w)) = trace w @ [Sent rq]"
  by (simp add: http_def)

lemma sent_say [simp]: "sent (say ev w) = sent w"
  by (simp add: say_def)

lemma clock_say [simp]: "clock (say ev w) = clock w"
  by (simp add: say_def)

lemma trace_say [simp]: "trace (say ev w) = trace w @ [ev]"
  by (simp add: say_def)

lemma sent_sleep [simp]: "sent (sleep e n w) = sent w"
  by (simp add: sleep_def)

lemma clock_sleep [simp]:
  "clock (sleep e n w) = clock w + ticks_per_second * n + oversleep e (sent w)"
  by (simp add: sleep_def)

lemma trace_sleep [simp]: "trace (sleep e n w) = trace w @ [Slept n]"
  by (simp add: sleep_def)

lemma sent_note_status [simp]: "sent (snd (note_status s l w)) = sent w"
  by (simp add: note_status_def)

lemma clock_note_status [simp]: "clock (snd (note_status s l w)) = clock w"
  by (simp add: note_status_def)

lemma trace_note_status [simp]:
  "trace (snd (note_status status last_status w))
     = (if py_eq status last_status then trace w else trace w @ [StatusNotice status])"
  by (simp add: note_status_def)

section \<open>One iteration of each loop\<close>

text \<open>
  The unfolding of each loop, case by case, and the definitions that evaluate a run on a
  given control plane.
\<close>

lemma poll_deployment_loop_deadline:
  "\<not> clock w - start_time < ticks_per_second * timeout \<Longrightarrow>
   poll_deployment_loop e rq timeout poll_interval start_time last_status w
     = Some (Inr JNull, say (TimedOut timeout) w)"
  by (subst poll_deployment_loop.simps) simp

lemma poll_deployment_loop_raised:
  "clock w - start_time < ticks_per_second * timeout \<Longrightarrow>
   respond e (sent w) rq = Raised msg \<Longrightarrow>
   poll_deployment_loop e rq timeout poll_interval start_time last_status w
     = Some (Inr JNull, say (PollFailed msg) (snd (http e rq w)))"
  by (subst poll_deployment_loop.simps) (simp add: http_def)

lemma poll_deployment_loop_http_error:
  "clock w - start_time < ticks_per_second * timeout \<Longrightarrow>
   respond e (sent w) rq = Response sc loc result \<Longrightarrow> is_http_error sc \<Longrightarrow>
   poll_deployment_loop e rq timeout poll_interval start_time last_status w
     = Some (Inr JNull, say (PollFailed (http_error sc)) (snd (http e rq w)))"
  by (subst poll_deployment_loop.simps) (simp add: http_def)

lemma poll_deployment_loop_malformed:
  "clock w - start_time < ticks_per_second * timeout \<Longrightarrow>
   respond e (sent w) rq = Response sc loc result \<Longrightarrow> \<not> is_http_error sc \<Longrightarrow>
   provisioning_state result = Inl x \<Longrightarrow>
   poll_deployment_loop e rq timeout poll_interval start_time last_status w
     = Some (Inl x, snd (http e rq w))"
  by (subst poll_deployment_loop.simps) (simp add: http_def)

lemma poll_deployment_loop_status:
  "clock w - start_time < ticks_per_second * timeout \<Longrightarrow>
   respond e (sent w) rq = Response sc loc result \<Longrightarrow> \<not> is_http_error sc \<Longrightarrow>
   provisioning_state result = Inr status \<Longrightarrow>
   poll_deployment_loop e rq timeout poll_interval start_time last_status w
     = (if py_in status terminal_states
        then Some (Inr result, snd (note_status status last_status (snd (http e rq w))))
        else poll_deployment_loop e rq timeout poll_interval start_time
               (fst (note_status status last_status (snd (http e rq w))))
               (sleep e poll_interval (snd (note_status status last_status (snd (http e rq w))))))"
  by (subst poll_deployment_loop.simps) (simp add: http_def split: prod.splits)

lemma poll_async_loop_deadline:
  "\<not> clock w - start_time < ticks_per_second * timeout \<Longrightarrow>
   poll_async_loop e rq timeout poll_interval start_time w = Some (JNull, w)"
  by (subst poll_async_loop.simps) simp

lemma poll_async_loop_raised:
  "clock w - start_time < ticks_per_second * timeout \<Longrightarrow>
   respond e (sent w) rq = Raised msg \<Longrightarrow>
   poll_async_loop e rq timeout poll_interval start_time w = Some (JNull, snd (http e rq w))"
  by (subst poll_async_loop.simps) (simp add: http_def)

lemma poll_async_loop_response:
  "clock w - start_time < ticks_per_second * timeout \<Longrightarrow>
   respond e (sent w) rq = Response sc loc payload \<Longrightarrow>
   poll_async_loop e rq timeout poll_interval start_time w
     = (if sc = 200 then Some (payload, snd (http e rq w))
        else if sc = 202 then
          poll_async_loop e rq timeout poll_interval start_time
            (sleep e poll_interval (snd (http e rq w)))
        else Some (JNull, snd (http e rq w)))"
  by (subst poll_async_loop.simps) (simp add: http_def)

lemmas poll_steps =
  poll_deployment_loop_deadline poll_deployment_loop_raised poll_deployment_loop_http_error
  poll_deployment_loop_malformed poll_deployment_loop_status
  poll_async_loop_deadline poll_async_loop_raised poll_async_loop_response

lemmas world_defs =
  http_def sleep_def say_def note_status_def ticks_per_second_def is_http_error_def
  provisioning_state_def terminal_states_def get_request_def

lemmas main_defs =
  main_def provision_and_run_def run_operation_def show_outputs_def default_subscription_def
  authenticate_def init_deployer_def get_subscription_info_def load_parameters_def
  check_resource_group_exists_def create_resource_group_def compile_bicep_def
  validate_deployment_def deploy_template_def get_deployment_outputs_def
  wrap_values_def exit_status_def Let_def

section \<open>The pollers return\<close>

text \<open>
  With a positive interval every sleep brings the deadline nearer by at least the
  interval, so both loops return, and they send no more requests than the remaining
  budget allows.
\<close>

lemma poll_deployment_loop_returns:
  assumes "0 < poll_interval" "start_time \<le> clock w"
  shows "\<exists>r w'. poll_deployment_loop e rq timeout poll_interval start_time last_status w = Some (r, w')
           \<and> sent w \<le> sent w'
           \<and> sent w' - sent w
                \<le> ceil_div (ticks_per_second * timeout - (clock w - start_time))
                     (ticks_per_second * poll_interval)
           \<and> ((\<forall>n. transient_reply (respond e n rq))
                \<longrightarrow> r = Inr JNull \<and> trace w' \<noteq> [] \<and> last (trace w') = TimedOut timeout)"
  using assms(2)
proof (induction "ticks_per_second * timeout - (clock w - start_time)"
         arbitrary: w last_status rule: less_induct)
  case less
  let ?T = "ticks_per_second * timeout"
  let ?I = "ticks_per_second * poll_interval"
  have Ipos: "0 < ?I" using assms(1) by (simp add: ticks_per_second_def)
  show ?case
  proof (cases "clock w - start_time < ?T")
    case False
    then show ?thesis
      by (subst poll_deployment_loop.simps) simp
  next
    case True
    then have mpos: "0 < ?T - (clock w - start_time)" by simp
    obtain rp w1 where h: "http e rq w = (rp, w1)" by (cases "http e rq w")
    have rp: "rp = respond e (sent w) rq" using h fst_http [of e rq w] by simp
    have s1: "sent w1 = Suc (sent w)" using h sent_http [of e rq w] by simp
    have c1: "clock w1 = clock w + latency e (sent w)" using h clock_http [of e rq w] by simp
    have one: "Suc 0 \<le> ceil_div (?T - (clock w - start_time)) ?I"
      using ceil_div_pos [OF Ipos mpos] by simp
    show ?thesis
    proof (cases rp)
      case (Raised msg)
      have "\<not> transient_reply (respond e (sent w) rq)"
        using Raised rp by (simp add: transient_reply_def)
      then show ?thesis using True h Raised s1 one
        by (subst poll_deployment_loop.simps) auto
    next
      case (Response sc loc result)
      show ?thesis
      proof (cases "is_http_error sc")
        case True
        have "\<not> transient_reply (respond e (sent w) rq)"
          using Response rp True by (simp add: transient_reply_def)
        then show ?thesis using \<open>clock w - start_time < ?T\<close> h Response True s1 one
          by (subst poll_deployment_loop.simps) auto
      next
        case noerr: False
        show ?thesis
        proof (cases "provisioning_state result")
          case (Inl x)
          have "\<not> transient_reply (respond e (sent w) rq)"
            using Response rp Inl by (simp add: transient_reply_def)
          then show ?thesis using True h Response noerr Inl s1 one
            by (subst poll_deployment_loop.simps) auto
        next
          case (Inr status)
          obtain l2 w2 where n: "note_status status last_status w1 = (l2, w2)"
            by (cases "note_status status last_status w1")
          have s2: "sent w2 = Suc (sent w)"
            using n sent_note_status [of status last_status w1] s1 by simp
          have c2: "clock w2 = clock w + latency e (sent w)"
            using n clock_note_status [of status last_status w1] c1 by simp
          show ?thesis
          proof (cases "py_in status terminal_states")
            case fin: True
            have "\<not> transient_reply (respond e (sent w) rq)"
              using Response rp Inr fin noerr by (simp add: transient_reply_def)
            then show ?thesis using True h Response noerr Inr n fin s2 one
              by (subst poll_deployment_loop.simps) auto
          next
            case nonterm: False
            let ?w3 = "sleep e poll_interval w2"
            have c3: "clock ?w3 = clock w + latency e (sent w) + ?I + oversleep e (Suc (sent w))"
              using c2 s2 by simp
            have s3: "sent ?w3 = Suc (sent w)" using s2 by simp
            have st3: "start_time \<le> clock ?w3" using less.prems c3 by simp
            have dec: "?T - (clock ?w3 - start_time) < ?T - (clock w - start_time)"
              using True less.prems c3 Ipos by arith
            from less.hyps [OF dec st3, of l2]
            obtain r w' where
              rec: "poll_deployment_loop e rq timeout poll_interval start_time l2 ?w3 = Some (r, w')"
              and le: "sent ?w3 \<le> sent w'"
              and bd: "sent w' - sent ?w3 \<le> ceil_div (?T - (clock ?w3 - start_time)) ?I"
              and tr: "(\<forall>n. transient_reply (respond e n rq))
                \<longrightarrow> r = Inr JNull \<and> trace w' \<noteq> [] \<and> last (trace w') = TimedOut timeout"
              by blast
            have eq: "poll_deployment_loop e rq timeout poll_interval start_time last_status w
                        = Some (r, w')"
              using True h Response noerr Inr n nonterm rec
              by (subst poll_deployment_loop.simps) simp
            have "(?T - (clock ?w3 - start_time)) + ?I \<le> ?T - (clock w - start_time)
                    \<or> ?T - (clock ?w3 - start_time) = 0"
              using c3 less.prems by arith
            from ceil_div_step [OF Ipos mpos this]
            have "Suc (ceil_div (?T - (clock ?w3 - start_time)) ?I)
                    \<le> ceil_div (?T - (clock w - start_time)) ?I" .
            then have "sent w' - sent w \<le> ceil_div (?T - (clock w - start_time)) ?I"
              using bd le s3 by linarith
            then show ?thesis using eq le s3 tr by auto
          qed
        qed
      qed
    qed
  qed
qed

lemma poll_async_loop_returns:
  assumes "0 < poll_interval" "start_time \<le> clock w"
  shows "\<exists>p w'. poll_async_loop e rq timeout poll_interval start_time w = Some (p, w')
           \<and> sent w \<le> sent w'
           \<and> sent w' - sent w
                \<le> ceil_div (ticks_per_second * timeout - (clock w - start_time))
                     (ticks_per_second * poll_interval)"
  using assms(2)
proof (induction "ticks_per_second * timeout - (clock w - start_time)"
         arbitrary: w rule: less_induct)
  case less
  let ?T = "ticks_per_second * timeout"
  let ?I = "ticks_per_second * poll_interval"
  have Ipos: "0 < ?I" using assms(1) by (simp add: ticks_per_second_def)
  show ?case
  proof (cases "clock w - start_time < ?T")
    case False
    then show ?thesis
      by (subst poll_async_loop.simps) simp
  next
    case True
    then have mpos: "0 < ?T - (clock w - start_time)" by simp
    obtain rp w1 where h: "http e rq w = (rp, w1)" by (cases "http e rq w")
    have s1: "sent w1 = Suc (sent w)" using h sent_http [of e rq w] by simp
    have c1: "clock w1 = clock w + latency e (sent w)" using h clock_http [of e rq w] by simp
    have one: "Suc 0 \<le> ceil_div (?T - (clock w - start_time)) ?I"
      using ceil_div_pos [OF Ipos mpos] by simp
    show ?thesis
    proof (cases rp)
      case (Raised msg)
      then show ?thesis using True h s1 one
        by (subst poll_async_loop.simps) auto
    next
      case (Response sc loc payload)
      consider "sc = 200" | "sc = 202" | "sc \<noteq> 200" "sc \<noteq> 202" by blast
      then show ?thesis
      proof cases
        case 1
        then show ?thesis using True h Response s1 one
          by (subst poll_async_loop.simps) auto
      next
        case 3
        then show ?thesis using True h Response s1 one
          by (subst poll_async_loop.simps) auto
      next
        case 2
        let ?w3 = "sleep e poll_interval w1"
        have c3: "clock ?w3 = clock w + latency e (sent w) + ?I + oversleep e (Suc (sent w))"
          using c1 s1 by simp
        have s3: "sent ?w3 = Suc (sent w)" using s1 by simp
        have st3: "start_time \<le> clock ?w3" using less.prems c3 by simp
        have dec: "?T - (clock ?w3 - start_time) < ?T - (clock w - start_time)"
          using True less.prems c3 Ipos by arith
        from less.hyps [OF dec st3]
        obtain p w' where
          rec: "poll_async_loop e rq timeout poll_interval start_time ?w3 = Some (p, w')"
          and le: "sent ?w3 \<le> sent w'"
          and bd: "sent w' - sent ?w3 \<le> ceil_div (?T - (clock ?w3 - start_time)) ?I"
          by blast
        have eq: "poll_async_loop e rq timeout poll_interval start_time w = Some (p, w')"
          using True h Response 2 rec
          by (subst poll_async_loop.simps) simp
        have "(?T - (clock ?w3 - start_time)) + ?I \<le> ?T - (clock w - start_time)
                \<or> ?T - (clock ?w3 - start_time) = 0"
          using c3 less.prems by arith
        from ceil_div_step [OF Ipos mpos this]
        have "Suc (ceil_div (?T - (clock ?w3 - start_time)) ?I)
                \<le> ceil_div (?T - (clock w - start_time)) ?I" .
        then have "sent w' - sent w \<le> ceil_div (?T - (clock w - start_time)) ?I"
          using bd le s3 by linarith
        then show ?thesis using eq le s3 by auto
      qed
    qed
  qed
qed

lemma poll_deployment_returns:
  assumes "0 < poll_interval"
  shows "\<exists>r w'. poll_deployment e d rg name timeout poll_interval w = Some (r, w')"
  using poll_deployment_loop_returns [OF assms, of "clock w" w e
      "get_request d (deployment_url d rg name)" timeout JNull]
  by (auto simp: poll_deployment_def)

lemma poll_async_operation_returns:
  assumes "0 < poll_interval"
  shows "\<exists>p w'. poll_async_operation e d url timeout poll_interval w = Some (p, w')
           \<and> sent w \<le> sent w' \<and> sent w' - sent w \<le> ceil_div timeout poll_interval"
proof -
  have "ceil_div (ticks_per_second * timeout - (clock w - clock w))
          (ticks_per_second * poll_interval) = ceil_div timeout poll_interval"
    using ceil_div_scale [of ticks_per_second poll_interval timeout] assms
    by (simp add: ticks_per_second_def)
  then show ?thesis
    using poll_async_loop_returns [OF assms, of "clock w" w e "get_request d url" timeout]
    by (simp add: poll_async_operation_def)
qed

section \<open>Facts about a whole run\<close>

text \<open>
  Fixpoint induction over the loops: which request of a run can be its last one, and
  what the run returns then.
\<close>

lemma single_fetch:
  assumes "sent w' = Suc (sent w)"
    and "\<And>k. k = sent w \<Longrightarrow> raises k \<Longrightarrow> Q k"
  shows "sent w \<le> sent w' \<and> (\<forall>k. sent w \<le> k \<and> k < sent w' \<and> raises k \<longrightarrow> Q k)"
proof (intro conjI allI impI)
  show "sent w \<le> sent w'" using assms(1) by simp
next
  fix k assume a: "sent w \<le> k \<and> k < sent w' \<and> raises k"
  then have "k = sent w" using assms(1) by simp
  then show "Q k" using assms(2) a by blast
qed

lemma later_fetch:
  assumes "sent w3 = Suc (sent w)"
    and "\<not> raises (sent w)"
    and "sent w3 \<le> sent w' \<and> (\<forall>k. sent w3 \<le> k \<and> k < sent w' \<and> raises k \<longrightarrow> Q k)"
  shows "sent w \<le> sent w' \<and> (\<forall>k. sent w \<le> k \<and> k < sent w' \<and> raises k \<longrightarrow> Q k)"
proof (intro conjI allI impI)
  show "sent w \<le> sent w'" using assms(1,3) by simp
next
  fix k assume a: "sent w \<le> k \<and> k < sent w' \<and> raises k"
  then have "k \<noteq> sent w" using assms(2) by blast
  then have "sent w3 \<le> k" using a assms(1) by simp
  then show "Q k" using assms(3) a by blast
qed

lemma poll_deployment_loop_raise_is_last:
  assumes "poll_deployment_loop e rq timeout poll_interval start_time last_status w = Some y"
  shows "sent w \<le> sent (snd y)
         \<and> (\<forall>k. sent w \<le> k \<and> k < sent (snd y) \<and> status_fetch_raises (respond e k rq)
               \<longrightarrow> sent (snd y) = Suc k \<and> fst y = Inr JNull
                   \<and> (\<exists>msg. last (trace (snd y)) = PollFailed msg))"
  using assms
proof (induction rule: poll_deployment_loop.raw_induct[rotated 1, consumes 1])
  case (1 f e rq timeout poll_interval start_time last_status w y)
  show ?case
  proof (cases "clock w - start_time < ticks_per_second * timeout")
    case False
    then have "y = (Inr JNull, say (TimedOut timeout) w)" using "1.hyps" by simp
    then show ?thesis by simp
  next
    case True
    obtain rp w1 where h: "http e rq w = (rp, w1)" by (cases "http e rq w")
    have rp: "rp = respond e (sent w) rq" using h fst_http [of e rq w] by simp
    have s1: "sent w1 = Suc (sent w)" using h sent_http [of e rq w] by simp
    show ?thesis
    proof (cases rp)
      case (Raised msg)
      then have y: "y = (Inr JNull, say (PollFailed msg) w1)"
        using "1.hyps" True h by simp
      show ?thesis
        by (rule single_fetch) (simp_all add: y s1)
    next
      case (Response sc loc result)
      have rp': "respond e (sent w) rq = Response sc loc result"
        using rp Response by simp
      show ?thesis
      proof (cases "is_http_error sc")
        case err: True
        then have y: "y = (Inr JNull, say (PollFailed (http_error sc)) w1)"
          using "1.hyps" True h Response by simp
        show ?thesis
          by (rule single_fetch) (simp_all add: y s1)
      next
        case noerr: False
        have nr: "\<not> status_fetch_raises (respond e (sent w) rq)"
          by (simp add: status_fetch_raises_def rp' noerr)
        show ?thesis
        proof (cases "provisioning_state result")
          case (Inl x)
          then have y: "y = (Inl x, w1)"
            using "1.hyps" True h Response noerr by simp
          show ?thesis
            by (rule single_fetch) (simp_all add: y s1 nr)
        next
          case (Inr status)
          obtain l2 w2 where n: "note_status status last_status w1 = (l2, w2)"
            by (cases "note_status status last_status w1")
          have s2: "sent w2 = Suc (sent w)"
            using n sent_note_status [of status last_status w1] s1 by simp
          show ?thesis
          proof (cases "py_in status terminal_states")
            case fin: True
            then have y: "y = (Inr result, w2)"
              using "1.hyps" True h Response noerr Inr n by simp
            show ?thesis
              by (rule single_fetch) (simp_all add: y s2 nr)
          next
            case nonfin: False
            then have rec: "f e rq timeout poll_interval start_time l2 (sleep e poll_interval w2) = Some y"
              using "1.hyps" True h Response noerr Inr n by simp
            have s3: "sent (sleep e poll_interval w2) = Suc (sent w)" using s2 by simp
            show ?thesis
              by (rule later_fetch
                    [where raises = "\<lambda>k. status_fetch_raises (respond e k rq)", OF s3 nr])
                 (rule "1.IH" [OF rec])
          qed
        qed
      qed
    qed
  qed
qed

lemma poll_async_loop_raise_is_last:
  assumes "poll_async_loop e rq timeout poll_interval start_time w = Some y"
  shows "sent w \<le> sent (snd y)
         \<and> (\<forall>k. sent w \<le> k \<and> k < sent (snd y) \<and> follow_up_raises (respond e k rq)
               \<longrightarrow> sent (snd y) = Suc k \<and> fst y = JNull \<and> last (trace (snd y)) = Sent rq)"
  using assms
proof (induction rule: poll_async_loop.raw_induct[rotated 1, consumes 1])
  case (1 f e rq timeout poll_interval start_time w y)
  show ?case
  proof (cases "clock w - start_time < ticks_per_second * timeout")
    case False
    then have "y = (JNull, w)" using "1.hyps" by simp
    then show ?thesis by auto
  next
    case True
    obtain rp w1 where h: "http e rq w = (rp, w1)" by (cases "http e rq w")
    have rp: "rp = respond e (sent w) rq" using h fst_http [of e rq w] by simp
    have s1: "sent w1 = Suc (sent w)" using h sent_http [of e rq w] by simp
    have t1: "trace w1 = trace w @ [Sent rq]" using h trace_http [of e rq w] by simp
    show ?thesis
    proof (cases rp)
      case (Raised msg)
      then have y: "y = (JNull, w1)"
        using "1.hyps" True h by simp
      show ?thesis
        by (rule single_fetch) (simp_all add: y s1 t1)
    next
      case (Response sc loc payload)
      have rp': "respond e (sent w) rq = Response sc loc payload"
        using rp Response by simp
      have nr: "\<not> follow_up_raises (respond e (sent w) rq)"
        by (simp add: follow_up_raises_def rp')
      consider "sc = 200" | "sc = 202" | "sc \<noteq> 200" "sc \<noteq> 202" by blast
      then show ?thesis
      proof cases
        case 1
        then have y: "y = (payload, w1)"
          using "1.hyps" True h Response by simp
        show ?thesis
          by (rule single_fetch) (simp_all add: y s1 nr)
      next
        case 2
        then have rec: "f e rq timeout poll_interval start_time (sleep e poll_interval w1) = Some y"
          using "1.hyps" True h Response by simp
        have s3: "sent (sleep e poll_interval w1) = Suc (sent w)" using s1 by simp
        show ?thesis
          by (rule later_fetch
                [where raises = "\<lambda>k. follow_up_raises (respond e k rq)", OF s3 nr])
             (rule "1.IH" [OF rec])
      next
        case 3
        then have y: "y = (JNull, w1)"
          using "1.hyps" True h Response by simp
        show ?thesis
          by (rule single_fetch) (simp_all add: y s1 nr)
      qed
    qed
  qed
qed

lemma poll_deployment_loop_exit_is_terminal:
  assumes "poll_deployment_loop e rq timeout poll_interval start_time last_status w = Some y"
  shows "sent w \<le> sent (snd y)
         \<and> (\<forall>k. sent w \<le> k \<and> k < sent (snd y) \<and> True
               \<longrightarrow> (terminal_reply (respond e k rq)
                      \<longrightarrow> sent (snd y) = Suc k \<and> fst y = Inr (reply_body (respond e k rq)))
                 \<and> (Suc k < sent (snd y) \<longrightarrow> transient_reply (respond e k rq)))"
  using assms
proof (induction rule: poll_deployment_loop.raw_induct[rotated 1, consumes 1])
  case (1 f e rq timeout poll_interval start_time last_status w y)
  show ?case
  proof (cases "clock w - start_time < ticks_per_second * timeout")
    case False
    then have "y = (Inr JNull, say (TimedOut timeout) w)" using "1.hyps" by simp
    then show ?thesis by auto
  next
    case True
    obtain rp w1 where h: "http e rq w = (rp, w1)" by (cases "http e rq w")
    have rp: "rp = respond e (sent w) rq" using h fst_http [of e rq w] by simp
    have s1: "sent w1 = Suc (sent w)" using h sent_http [of e rq w] by simp
    show ?thesis
    proof (cases rp)
      case (Raised msg)
      then have y: "y = (Inr JNull, say (PollFailed msg) w1)"
        using "1.hyps" True h by simp
      have rp': "respond e (sent w) rq = Raised msg" using rp Raised by simp
      show ?thesis
        by (rule single_fetch) (simp_all add: y s1 rp' terminal_reply_def)
    next
      case (Response sc loc result)
      have rp': "respond e (sent w) rq = Response sc loc result"
        using rp Response by simp
      show ?thesis
      proof (cases "is_http_error sc")
        case err: True
        then have y: "y = (Inr JNull, say (PollFailed (http_error sc)) w1)"
          using "1.hyps" True h Response by simp
        show ?thesis
          by (rule single_fetch) (simp_all add: y s1 rp' terminal_reply_def err)
      next
        case noerr: False
        show ?thesis
        proof (cases "provisioning_state result")
          case (Inl x)
          then have y: "y = (Inl x, w1)"
            using "1.hyps" True h Response noerr by simp
          show ?thesis
            by (rule single_fetch) (simp_all add: y s1 rp' terminal_reply_def Inl)
        next
          case (Inr status)
          obtain l2 w2 where n: "note_status status last_status w1 = (l2, w2)"
            by (cases "note_status status last_status w1")
          have s2: "sent w2 = Suc (sent w)"
            using n sent_note_status [of status last_status w1] s1 by simp
          show ?thesis
          proof (cases "py_in status terminal_states")
            case fin: True
            then have y: "y = (Inr result, w2)"
              using "1.hyps" True h Response noerr Inr n by simp
            show ?thesis
              by (rule single_fetch) (simp_all add: y s2 rp' reply_body_def)
          next
            case nonfin: False
            then have rec: "f e rq timeout poll_interval start_time l2 (sleep e poll_interval w2) = Some y"
              using "1.hyps" True h Response noerr Inr n by simp
            have s3: "sent (sleep e poll_interval w2) = Suc (sent w)" using s2 by simp
            have nt: "\<not> terminal_reply (respond e (sent w) rq)"
              by (simp add: rp' terminal_reply_def Inr nonfin)
            have tr: "transient_reply (respond e (sent w) rq)"
              by (simp add: rp' transient_reply_def Inr nonfin noerr)
            from "1.IH" [OF rec]
            have ih: "sent (sleep e poll_interval w2) \<le> sent (snd y)"
              and ihk: "\<And>k. sent (sleep e poll_interval w2) \<le> k \<Longrightarrow> k < sent (snd y) \<Longrightarrow>
                   (terminal_reply (respond e k rq)
                      \<longrightarrow> sent (snd y) = Suc k \<and> fst y = Inr (reply_body (respond e k rq)))
                 \<and> (Suc k < sent (snd y) \<longrightarrow> transient_reply (respond e k rq))"
              by simp_all
            show ?thesis
            proof (intro conjI allI impI)
              show "sent w \<le> sent (snd y)" using ih s3 by simp
            next
              fix k assume a: "sent w \<le> k \<and> k < sent (snd y) \<and> True"
                and t: "terminal_reply (respond e k rq)"
              then have "k \<noteq> sent w" using nt by blast
              then have "sent (sleep e poll_interval w2) \<le> k" using a s3 by simp
              from ihk [OF this] a t show "sent (snd y) = Suc k" by simp
            next
              fix k assume a: "sent w \<le> k \<and> k < sent (snd y) \<and> True"
                and t: "terminal_reply (respond e k rq)"
              then have "k \<noteq> sent w" using nt by blast
              then have "sent (sleep e poll_interval w2) \<le> k" using a s3 by simp
              from ihk [OF this] a t show "fst y = Inr (reply_body (respond e k rq))" by simp
            next
              fix k assume a: "sent w \<le> k \<and> k < sent (snd y) \<and> True"
                and b: "Suc k < sent (snd y)"
              show "transient_reply (respond e k rq)"
              proof (cases "k = sent w")
                case True
                then show ?thesis using tr by simp
              next
                case False
                then have "sent (sleep e poll_interval w2) \<le> k" using a s3 by simp
                from ihk [OF this] a b show ?thesis by simp
              qed
            qed
          qed
        qed
      qed
    qed
  qed
qed

lemma poll_deployment_loop_document:
  assumes "poll_deployment_loop e rq timeout poll_interval start_time last_status w = Some y"
  shows "\<forall>doc. fst y = Inr doc \<and> doc \<noteq> JNull
           \<longrightarrow> (\<exists>status. provisioning_state doc = Inr status \<and> py_in status terminal_states)"
  using assms
proof (induction rule: poll_deployment_loop.raw_induct[rotated 1, consumes 1])
  case (1 f e rq timeout poll_interval start_time last_status w y)
  show ?case
  proof (cases "clock w - start_time < ticks_per_second * timeout")
    case False
    then have "y = (Inr JNull, say (TimedOut timeout) w)" using "1.hyps" by simp
    then show ?thesis by simp
  next
    case True
    obtain rp w1 where h: "http e rq w = (rp, w1)" by (cases "http e rq w")
    show ?thesis
    proof (cases rp)
      case (Raised msg)
      then have "y = (Inr JNull, say (PollFailed msg) w1)"
        using "1.hyps" True h by simp
      then show ?thesis by simp
    next
      case (Response sc loc result)
      show ?thesis
      proof (cases "is_http_error sc")
        case err: True
        then have "y = (Inr JNull, say (PollFailed (http_error sc)) w1)"
          using "1.hyps" True h Response by simp
        then show ?thesis by simp
      next
        case noerr: False
        show ?thesis
        proof (cases "provisioning_state result")
          case (Inl x)
          then have "y = (Inl x, w1)"
            using "1.hyps" True h Response noerr by simp
          then show ?thesis by simp
        next
          case (Inr status)
          obtain l2 w2 where n: "note_status status last_status w1 = (l2, w2)"
            by (cases "note_status status last_status w1")
          show ?thesis
          proof (cases "py_in status terminal_states")
            case fin: True
            then have "y = (Inr result, w2)"
              using "1.hyps" True h Response noerr Inr n by simp
            then show ?thesis using Inr fin by simp
          next
            case nonfin: False
            then have rec: "f e rq timeout poll_interval start_time l2 (sleep e poll_interval w2) = Some y"
              using "1.hyps" True h Response noerr Inr n by simp
            show ?thesis by (rule "1.IH" [OF rec])
          qed
        qed
      qed
    qed
  qed
qed

lemma poll_async_loop_final:
  assumes "poll_async_loop e rq timeout poll_interval start_time w = Some y"
  shows "sent w \<le> sent (snd y)
         \<and> (\<forall>k. sent w \<le> k \<and> k < sent (snd y) \<and> \<not> follow_up_pending (respond e k rq)
               \<longrightarrow> sent (snd y) = Suc k \<and> fst y = follow_up_value (respond e k rq))"
  using assms
proof (induction rule: poll_async_loop.raw_induct[rotated 1, consumes 1])
  case (1 f e rq timeout poll_interval start_time w y)
  show ?case
  proof (cases "clock w - start_time < ticks_per_second * timeout")
    case False
    then have "y = (JNull, w)" using "1.hyps" by simp
    then show ?thesis by auto
  next
    case True
    obtain rp w1 where h: "http e rq w = (rp, w1)" by (cases "http e rq w")
    have rp: "rp = respond e (sent w) rq" using h fst_http [of e rq w] by simp
    have s1: "sent w1 = Suc (sent w)" using h sent_http [of e rq w] by simp
    show ?thesis
    proof (cases rp)
      case (Raised msg)
      then have y: "y = (JNull, w1)"
        using "1.hyps" True h by simp
      have rp': "respond e (sent w) rq = Raised msg" using rp Raised by simp
      show ?thesis
        by (rule single_fetch) (simp_all add: y s1 rp' follow_up_value_def)
    next
      case (Response sc loc payload)
      have rp': "respond e (sent w) rq = Response sc loc payload"
        using rp Response by simp
      consider "sc = 200" | "sc = 202" | "sc \<noteq> 200" "sc \<noteq> 202" by blast
      then show ?thesis
      proof cases
        case 1
        then have y: "y = (payload, w1)"
          using "1.hyps" True h Response by simp
        show ?thesis
          by (rule single_fetch) (simp_all add: y s1 rp' follow_up_value_def 1)
      next
        case 2
        then have rec: "f e rq timeout poll_interval start_time (sleep e poll_interval w1) = Some y"
          using "1.hyps" True h Response by simp
        have s3: "sent (sleep e poll_interval w1) = Suc (sent w)" using s1 by simp
        have pend: "\<not> \<not> follow_up_pending (respond e (sent w) rq)"
          by (simp add: follow_up_pending_def rp' 2)
        show ?thesis
          by (rule later_fetch
                [where raises = "\<lambda>k. \<not> follow_up_pending (respond e k rq)", OF s3 pend])
             (rule "1.IH" [OF rec])
      next
        case 3
        then have y: "y = (JNull, w1)"
          using "1.hyps" True h Response by simp
        show ?thesis
          by (rule single_fetch) (simp_all add: y s1 rp' follow_up_value_def 3)
      qed
    qed
  qed
qed

lemma terminal_reply_body:
  assumes "terminal_reply r"
  shows "reply_body r \<noteq> JNull"
proof (cases r)
  case (Raised msg)
  then show ?thesis using assms by (simp add: terminal_reply_def)
next
  case (Response sc loc result)
  then have "\<exists>status. provisioning_state result = Inr status"
    using assms by (auto simp: terminal_reply_def split: sum.splits)
  then have "result \<noteq> JNull"
    by (auto simp: provisioning_state_def)
  then show ?thesis using Response by (simp add: reply_body_def)
qed

lemma unwrap_values_dicts:
  "(\<forall>kv \<in> set ps. is_dict (snd kv)) \<Longrightarrow>
   unwrap_values ps = Inr (map (\<lambda>kv. (fst kv, value_of (snd kv))) ps)"
proof (induction ps)
  case Nil
  then show ?case by simp
next
  case (Cons kv ps)
  then obtain members where f: "snd kv = JObj members"
    by (cases "snd kv") (auto simp: is_dict_def)
  have "unwrap_values ps = Inr (map (\<lambda>kv. (fst kv, value_of (snd kv))) ps)"
    using Cons by simp
  then show ?case using f by (simp add: value_of_def)
qed

section \<open>A transport failure ends the poll\<close>

text \<open>
  C1. Both pollers return (the interval being positive), and when one of the status
  fetches of the run raises a transport-level failure, that fetch is the last request of
  the run and the poller returns \<^verbatim>\<open>None\<close>: nothing is retried. The last effect of
  \<^verbatim>\<open>_poll_deployment\<close> is then its failure message, the last effect of
  \<^verbatim>\<open>_poll_async_operation\<close> is the failed request itself.
\<close>

theorem transport_failure_ends_poll:
  assumes "0 < poll_interval"
  shows "(\<exists>r w'. poll_deployment e d rg name timeout poll_interval w = Some (r, w')
            \<and> (\<forall>k. sent w \<le> k \<and> k < sent w'
                    \<and> status_fetch_raises
                         (respond e k (get_request d (deployment_url d rg name)))
                  \<longrightarrow> sent w' = Suc k \<and> r = Inr JNull
                      \<and> (\<exists>msg. last (trace w') = PollFailed msg)))
       \<and> (\<exists>p v'. poll_async_operation e d url timeout poll_interval w = Some (p, v')
            \<and> (\<forall>k. sent w \<le> k \<and> k < sent v'
                    \<and> follow_up_raises (respond e k (get_request d url))
                  \<longrightarrow> sent v' = Suc k \<and> p = JNull
                      \<and> last (trace v') = Sent (get_request d url)))"
proof (rule conjI)
  obtain r w' where run: "poll_deployment e d rg name timeout poll_interval w = Some (r, w')"
    using poll_deployment_returns [OF assms] by blast
  then have "poll_deployment_loop e (get_request d (deployment_url d rg name)) timeout
               poll_interval (clock w) JNull w = Some (r, w')"
    by (simp add: poll_deployment_def)
  from poll_deployment_loop_raise_is_last [OF this]
  have "\<forall>k. sent w \<le> k \<and> k < sent w'
                    \<and> status_fetch_raises
                         (respond e k (get_request d (deployment_url d rg name)))
                  \<longrightarrow> sent w' = Suc k \<and> r = Inr JNull
                      \<and> (\<exists>msg. last (trace w') = PollFailed msg)"
    by simp
  with run
  show "\<exists>r w'. poll_deployment e d rg name timeout poll_interval w = Some (r, w')
            \<and> (\<forall>k. sent w \<le> k \<and> k < sent w'
                    \<and> status_fetch_raises
                         (respond e k (get_request d (deployment_url d rg name)))
                  \<longrightarrow> sent w' = Suc k \<and> r = Inr JNull
                      \<and> (\<exists>msg. last (trace w') = PollFailed msg))"
    by blast
next
  obtain p v' where run: "poll_async_operation e d url timeout poll_interval w = Some (p, v')"
    using poll_async_operation_returns [OF assms] by blast
  then have "poll_async_loop e (get_request d url) timeout poll_interval (clock w) w
               = Some (p, v')"
    by (simp add: poll_async_operation_def)
  from poll_async_loop_raise_is_last [OF this]
  have "\<forall>k. sent w \<le> k \<and> k < sent v'
                    \<and> follow_up_raises (respond e k (get_request d url))
                  \<longrightarrow> sent v' = Suc k \<and> p = JNull
                      \<and> last (trace v') = Sent (get_request d url)"
    by simp
  with run
  show "\<exists>p v'. poll_async_operation e d url timeout poll_interval w = Some (p, v')
            \<and> (\<forall>k. sent w \<le> k \<and> k < sent v'
                    \<and> follow_up_raises (respond e k (get_request d url))
                  \<longrightarrow> sent v' = Suc k \<and> p = JNull
                      \<and> last (trace v') = Sent (get_request d url))"
    by blast
qed

theorem transport_failure_ends_poll_witness:
  "(0::nat) < 10
   \<and> status_fetch_raises
         (respond flaky_env 2 (get_request some_deployer (deployment_url some_deployer ''rg'' ''dep'')))
   \<and> follow_up_raises (respond flaky_env 2 (get_request some_deployer ''https://follow.up/1''))
   \<and> (\<exists>r w'. poll_deployment flaky_env some_deployer ''rg'' ''dep'' 1800 10 world0 = Some (r, w')
         \<and> sent world0 \<le> 2 \<and> 2 < sent w'
         \<and> sent w' = 3 \<and> r = Inr JNull \<and> (\<exists>msg. last (trace w') = PollFailed msg))
   \<and> (\<exists>p v'. poll_async_operation flaky_env some_deployer ''https://follow.up/1'' 1800 10 world0
                = Some (p, v')
         \<and> sent world0 \<le> 2 \<and> 2 < sent v'
         \<and> sent v' = 3 \<and> p = JNull
         \<and> last (trace v') = Sent (get_request some_deployer ''https://follow.up/1''))"
proof -
  let ?rq = "get_request some_deployer (deployment_url some_deployer ''rg'' ''dep'')"
  let ?fq = "get_request some_deployer ''https://follow.up/1''"
  have pos: "(0::nat) < 10" by simp
  have r1: "status_fetch_raises (respond flaky_env 2 ?rq)"
    by (simp add: status_fetch_raises_def flaky_env_def)
  have r2: "follow_up_raises (respond flaky_env 2 ?fq)"
    by (simp add: follow_up_raises_def flaky_env_def)
  have n1: "map_option (\<lambda>y. sent (snd y))
              (poll_deployment flaky_env some_deployer ''rg'' ''dep'' 1800 10 world0) = Some 3"
    by (simp add: poll_deployment_def poll_steps world_defs flaky_env_def quiet_env_def
          world0_def running_doc_def)
  have n2: "map_option (\<lambda>y. sent (snd y))
              (poll_async_operation flaky_env some_deployer ''https://follow.up/1'' 1800 10 world0)
              = Some 3"
    by (simp add: poll_async_operation_def poll_steps world_defs flaky_env_def quiet_env_def
          world0_def running_doc_def)
  have w0: "sent world0 = 0" by (simp add: world0_def)
  note inst = transport_failure_ends_poll [OF pos, of flaky_env some_deployer "''rg''" "''dep''"
      1800 world0 "''https://follow.up/1''"]
  from inst obtain r w' where
    run1: "poll_deployment flaky_env some_deployer ''rg'' ''dep'' 1800 10 world0 = Some (r, w')"
    and p1: "\<forall>k. sent world0 \<le> k \<and> k < sent w' \<and> status_fetch_raises (respond flaky_env k ?rq)
               \<longrightarrow> sent w' = Suc k \<and> r = Inr JNull \<and> (\<exists>msg. last (trace w') = PollFailed msg)"
    by blast
  from inst obtain p v' where
    run2: "poll_async_operation flaky_env some_deployer ''https://follow.up/1'' 1800 10 world0
             = Some (p, v')"
    and p2: "\<forall>k. sent world0 \<le> k \<and> k < sent v' \<and> follow_up_raises (respond flaky_env k ?fq)
               \<longrightarrow> sent v' = Suc k \<and> p = JNull \<and> last (trace v') = Sent ?fq"
    by blast
  have s1: "sent w' = 3" using n1 run1 by simp
  have s2: "sent v' = 3" using n2 run2 by simp
  have c1: "r = Inr JNull \<and> (\<exists>msg. last (trace w') = PollFailed msg)"
    using p1 [rule_format, of 2] r1 s1 w0 by simp
  have c2: "p = JNull \<and> last (trace v') = Sent ?fq"
    using p2 [rule_format, of 2] r2 s2 w0 by simp
  show ?thesis
    using pos r1 r2 run1 run2 s1 s2 c1 c2 w0 by simp
qed

section \<open>The resource-status poller stays within its budget\<close>

text \<open>
  C2. Whatever the control plane answers, a run of \<^verbatim>\<open>_poll_deployment\<close> with a
  positive interval returns, and it has sent at most \<open>timeout / poll_interval\<close> (rounded
  up) status fetches: 180 for the default budget of 1800 and 10 seconds. When every fetch
  finds a state outside Succeeded, Failed and Canceled, it returns \<^verbatim>\<open>None\<close> after
  the time-out message, not the last document fetched.
\<close>

theorem poll_deployment_fetch_bound:
  assumes "0 < poll_interval"
  shows "\<exists>r w'. poll_deployment e d rg name timeout poll_interval w = Some (r, w')
           \<and> sent w \<le> sent w'
           \<and> sent w' - sent w \<le> ceil_div timeout poll_interval
           \<and> ((\<forall>n. transient_reply (respond e n (get_request d (deployment_url d rg name))))
                \<longrightarrow> r = Inr JNull \<and> trace w' \<noteq> [] \<and> last (trace w') = TimedOut timeout)"
proof -
  have "ceil_div (ticks_per_second * timeout - (clock w - clock w))
          (ticks_per_second * poll_interval) = ceil_div timeout poll_interval"
    using ceil_div_scale [of ticks_per_second poll_interval timeout] assms
    by (simp add: ticks_per_second_def)
  then show ?thesis
    using poll_deployment_loop_returns [OF assms, of "clock w" w e
        "get_request d (deployment_url d rg name)" timeout JNull]
    by (simp add: poll_deployment_def)
qed

theorem poll_deployment_fetch_bound_witness:
  "(0::nat) < 10
   \<and> (\<forall>n. transient_reply
             (respond quiet_env n (get_request some_deployer (deployment_url some_deployer ''rg'' ''dep''))))
   \<and> ceil_div 1800 10 = 180
   \<and> (\<exists>r w'. poll_deployment quiet_env some_deployer ''rg'' ''dep'' 1800 10 world0 = Some (r, w')
         \<and> sent w' - sent world0 \<le> 180
         \<and> r = Inr JNull \<and> last (trace w') = TimedOut 1800)"
proof -
  have pos: "(0::nat) < 10" by simp
  have tr: "\<forall>n. transient_reply
             (respond quiet_env n (get_request some_deployer (deployment_url some_deployer ''rg'' ''dep'')))"
    by (simp add: transient_reply_def quiet_env_def running_doc_def provisioning_state_def
          terminal_states_def is_http_error_def)
  have c: "ceil_div 1800 10 = 180" by (simp add: ceil_div_def)
  show ?thesis
    using pos tr c
      poll_deployment_fetch_bound [OF pos, of quiet_env some_deployer "''rg''" "''dep''" 1800 world0]
    by auto
qed

section \<open>What a caller can tell from the value of a poll\<close>

text \<open>
  C3, as the claim states it, fails. \<^verbatim>\<open>_poll_deployment\<close> returns \<^verbatim>\<open>None\<close> when
  its deadline passes (the run against the stalled control plane ends with the time-out
  message) and the same \<^verbatim>\<open>None\<close> when a fetch raises (the run against the
  unreachable one ends with the failure message). \<^verbatim>\<open>_poll_async_operation\<close> returns
  \<^verbatim>\<open>None\<close> on its deadline, on a failed follow-up and on a transport failure alike.
\<close>

theorem timeout_value_is_failure_value:
  "map_option fst (poll_deployment stalled_env some_deployer ''rg'' ''dep'' 1800 10 world0)
     = Some (Inr JNull)
   \<and> map_option (last \<circ> trace \<circ> snd)
        (poll_deployment stalled_env some_deployer ''rg'' ''dep'' 1800 10 world0)
     = Some (TimedOut 1800)
   \<and> map_option fst (poll_deployment down_env some_deployer ''rg'' ''dep'' 1800 10 world0)
     = Some (Inr JNull)
   \<and> map_option (last \<circ> trace \<circ> snd)
        (poll_deployment down_env some_deployer ''rg'' ''dep'' 1800 10 world0)
     = Some (PollFailed ''connection refused'')
   \<and> map_option fst
        (poll_async_operation stalled_env some_deployer ''https://follow.up/1'' 300 5 world0)
     = Some JNull
   \<and> map_option fst
        (poll_async_operation failed_env some_deployer ''https://follow.up/1'' 300 5 world0)
     = Some JNull
   \<and> map_option fst
        (poll_async_operation down_env some_deployer ''https://follow.up/1'' 300 5 world0)
     = Some JNull"
  by (simp add: poll_deployment_def poll_async_operation_def poll_steps world_defs
        stalled_env_def down_env_def failed_env_def quiet_env_def world0_def running_doc_def)

text \<open>
  C3 as amended. The value of \<^verbatim>\<open>_poll_deployment\<close> on its deadline is \<^verbatim>\<open>None\<close>;
  so is its value when the fetch raises, while on a terminal state (Succeeded, Failed or
  Canceled) its value is the fetched document, which is never \<^verbatim>\<open>None\<close>. The value of
  \<^verbatim>\<open>_poll_async_operation\<close> on its deadline is \<^verbatim>\<open>None\<close>; a reply other than 202
  gives the payload for status 200 and \<^verbatim>\<open>None\<close> for any other status and for a
  transport failure.
\<close>

theorem timeout_value_is_none:
  "(\<not> clock w - start_time < ticks_per_second * timeout
    \<longrightarrow> poll_deployment_loop e rq timeout poll_interval start_time last_status w
          = Some (Inr JNull, say (TimedOut timeout) w)
        \<and> poll_async_loop e rq timeout poll_interval start_time w = Some (JNull, w))
   \<and> (clock w - start_time < ticks_per_second * timeout
        \<and> status_fetch_raises (respond e (sent w) rq)
    \<longrightarrow> (\<exists>msg. poll_deployment_loop e rq timeout poll_interval start_time last_status w
                  = Some (Inr JNull, say (PollFailed msg) (snd (http e rq w)))))
   \<and> (clock w - start_time < ticks_per_second * timeout
        \<and> terminal_reply (respond e (sent w) rq)
    \<longrightarrow> (\<exists>w'. poll_deployment_loop e rq timeout poll_interval start_time last_status w
                  = Some (Inr (reply_body (respond e (sent w) rq)), w'))
        \<and> reply_body (respond e (sent w) rq) \<noteq> JNull)
   \<and> (clock w - start_time < ticks_per_second * timeout
        \<and> \<not> follow_up_pending (respond e (sent w) rq)
    \<longrightarrow> poll_async_loop e rq timeout poll_interval start_time w
          = Some (follow_up_value (respond e (sent w) rq), snd (http e rq w)))
   \<and> follow_up_value (Raised msg) = JNull
   \<and> (sc \<noteq> 200 \<longrightarrow> follow_up_value (Response sc loc payload) = JNull)
   \<and> follow_up_value (Response 200 loc payload) = payload"
proof (intro conjI impI)
  assume a: "\<not> clock w - start_time < ticks_per_second * timeout"
  show "poll_deployment_loop e rq timeout poll_interval start_time last_status w
          = Some (Inr JNull, say (TimedOut timeout) w)"
    by (rule poll_deployment_loop_deadline [OF a])
  show "poll_async_loop e rq timeout poll_interval start_time w = Some (JNull, w)"
    by (rule poll_async_loop_deadline [OF a])
next
  assume "clock w - start_time < ticks_per_second * timeout
        \<and> status_fetch_raises (respond e (sent w) rq)"
  then have a1: "clock w - start_time < ticks_per_second * timeout"
    and a2: "status_fetch_raises (respond e (sent w) rq)" by blast+
  show "\<exists>msg. poll_deployment_loop e rq timeout poll_interval start_time last_status w
                  = Some (Inr JNull, say (PollFailed msg) (snd (http e rq w)))"
  proof (cases "respond e (sent w) rq")
    case (Raised m)
    show ?thesis using poll_deployment_loop_raised [OF a1 Raised] by blast
  next
    case (Response sc' loc' result)
    then have "is_http_error sc'" using a2 by (simp add: status_fetch_raises_def)
    from poll_deployment_loop_http_error [OF a1 Response this] show ?thesis by blast
  qed
next
  assume "clock w - start_time < ticks_per_second * timeout
        \<and> terminal_reply (respond e (sent w) rq)"
  then have a1: "clock w - start_time < ticks_per_second * timeout"
    and a2: "terminal_reply (respond e (sent w) rq)" by blast+
  show "reply_body (respond e (sent w) rq) \<noteq> JNull"
    by (rule terminal_reply_body [OF a2])
  show "\<exists>w'. poll_deployment_loop e rq timeout poll_interval start_time last_status w
                  = Some (Inr (reply_body (respond e (sent w) rq)), w')"
  proof (cases "respond e (sent w) rq")
    case (Raised m)
    then show ?thesis using a2 by (simp add: terminal_reply_def)
  next
    case (Response sc' loc' result)
    then have ne: "\<not> is_http_error sc'" using a2 by (simp add: terminal_reply_def)
    obtain status where st: "provisioning_state result = Inr status"
      and fin: "py_in status terminal_states"
      using a2 Response by (auto simp: terminal_reply_def split: sum.splits)
    from poll_deployment_loop_status [OF a1 Response ne st] fin Response
    show ?thesis by (simp add: reply_body_def)
  qed
next
  assume "clock w - start_time < ticks_per_second * timeout
        \<and> \<not> follow_up_pending (respond e (sent w) rq)"
  then have a1: "clock w - start_time < ticks_per_second * timeout"
    and a2: "\<not> follow_up_pending (respond e (sent w) rq)" by blast+
  show "poll_async_loop e rq timeout poll_interval start_time w
          = Some (follow_up_value (respond e (sent w) rq), snd (http e rq w))"
  proof (cases "respond e (sent w) rq")
    case (Raised m)
    from poll_async_loop_raised [OF a1 Raised] Raised
    show ?thesis by (simp add: follow_up_value_def)
  next
    case (Response sc' loc' payload')
    then have "sc' \<noteq> 202" using a2 by (simp add: follow_up_pending_def)
    with poll_async_loop_response [OF a1 Response] Response
    show ?thesis by (simp add: follow_up_value_def)
  qed
next
  show "follow_up_value (Raised msg) = JNull" by (simp add: follow_up_value_def)
next
  assume "sc \<noteq> 200"
  then show "follow_up_value (Response sc loc payload) = JNull"
    by (simp add: follow_up_value_def)
next
  show "follow_up_value (Response 200 loc payload) = payload"
    by (simp add: follow_up_value_def)
qed

theorem timeout_value_is_none_witness:
  "\<not> clock (world0\<lparr>clock := clock world0 + 1800000\<rparr>) - clock world0
        < ticks_per_second * 1800
   \<and> poll_deployment_loop stalled_env
        (get_request some_deployer (deployment_url some_deployer ''rg'' ''dep''))
        1800 10 (clock world0) (JStr ''Running'') (world0\<lparr>clock := clock world0 + 1800000\<rparr>)
       = Some (Inr JNull, say (TimedOut 1800) (world0\<lparr>clock := clock world0 + 1800000\<rparr>))
   \<and> clock world0 - clock world0 < ticks_per_second * 1800
   \<and> status_fetch_raises (respond down_env (sent world0)
        (get_request some_deployer (deployment_url some_deployer ''rg'' ''dep'')))
   \<and> (\<exists>msg. poll_deployment_loop down_env
          (get_request some_deployer (deployment_url some_deployer ''rg'' ''dep''))
          1800 10 (clock world0) JNull world0
         = Some (Inr JNull, say (PollFailed msg)
             (snd (http down_env
                (get_request some_deployer (deployment_url some_deployer ''rg'' ''dep''))
                world0))))
   \<and> terminal_reply (respond happy_env (sent (world0\<lparr>sent := 2\<rparr>))
        (get_request some_deployer (deployment_url some_deployer ''rg'' ''dep'')))
   \<and> (\<exists>w'. poll_deployment_loop happy_env
          (get_request some_deployer (deployment_url some_deployer ''rg'' ''dep''))
          1800 10 (clock world0) (JStr ''Running'') (world0\<lparr>sent := 2\<rparr>)
         = Some (Inr succeeded_doc, w'))
   \<and> succeeded_doc \<noteq> JNull
   \<and> \<not> follow_up_pending (respond failed_env (sent world0)
          (get_request some_deployer (deployment_url some_deployer ''rg'' ''dep'')))
   \<and> poll_async_loop failed_env
        (get_request some_deployer (deployment_url some_deployer ''rg'' ''dep''))
        1800 10 (clock world0) world0
       = Some (JNull,
           snd (http failed_env
                  (get_request some_deployer (deployment_url some_deployer ''rg'' ''dep''))
                  world0))
   \<and> (500::nat) \<noteq> 200
   \<and> follow_up_value (Response 500 None succeeded_doc) = JNull"
proof -
  let ?rq = "get_request some_deployer (deployment_url some_deployer ''rg'' ''dep'')"
  let ?late = "world0\<lparr>clock := clock world0 + 1800000\<rparr>"
  let ?third = "world0\<lparr>sent := 2\<rparr>"
  have h1: "\<not> clock ?late - clock world0 < ticks_per_second * 1800"
    by (simp add: ticks_per_second_def)
  have h2: "clock world0 - clock world0 < ticks_per_second * 1800"
    by (simp add: ticks_per_second_def)
  have h2': "clock ?third - clock world0 < ticks_per_second * 1800"
    by (simp add: ticks_per_second_def)
  have h3: "status_fetch_raises (respond down_env (sent world0) ?rq)"
    by (simp add: status_fetch_raises_def down_env_def)
  have h4: "terminal_reply (respond happy_env (sent ?third) ?rq)"
    by (simp add: terminal_reply_def happy_env_def succeeded_doc_def provisioning_state_def
          terminal_states_def is_http_error_def)
  have b4: "reply_body (respond happy_env (sent ?third) ?rq) = succeeded_doc"
    by (simp add: reply_body_def happy_env_def)
  have h5: "\<not> follow_up_pending (respond failed_env (sent world0) ?rq)"
    by (simp add: follow_up_pending_def failed_env_def)
  have v5: "follow_up_value (respond failed_env (sent world0) ?rq) = JNull"
    by (simp add: follow_up_value_def failed_env_def)
  have h6: "(500::nat) \<noteq> 200" by simp
  from timeout_value_is_none
    [of ?late "clock world0" 1800 stalled_env ?rq 10 "JStr ''Running''"] h1
  have c1: "poll_deployment_loop stalled_env ?rq 1800 10 (clock world0) (JStr ''Running'') ?late
              = Some (Inr JNull, say (TimedOut 1800) ?late)"
    by blast
  from timeout_value_is_none [of world0 "clock world0" 1800 down_env ?rq 10 JNull] h2 h3
  have c2: "\<exists>msg. poll_deployment_loop down_env ?rq 1800 10 (clock world0) JNull world0
              = Some (Inr JNull, say (PollFailed msg) (snd (http down_env ?rq world0)))"
    by blast
  from timeout_value_is_none
    [of ?third "clock world0" 1800 happy_env ?rq 10 "JStr ''Running''"] h2' h4
  have c3: "(\<exists>w'. poll_deployment_loop happy_env ?rq 1800 10 (clock world0) (JStr ''Running'')
                    ?third
              = Some (Inr (reply_body (respond happy_env (sent ?third) ?rq)), w'))
            \<and> reply_body (respond happy_env (sent ?third) ?rq) \<noteq> JNull"
    by blast
  from timeout_value_is_none [of world0 "clock world0" 1800 failed_env ?rq 10] h2 h5
  have c4: "poll_async_loop failed_env ?rq 1800 10 (clock world0) world0
              = Some (follow_up_value (respond failed_env (sent world0) ?rq),
                      snd (http failed_env ?rq world0))"
    by blast
  from timeout_value_is_none [where sc = 500 and loc = None and payload = succeeded_doc] h6
  have c5: "follow_up_value (Response 500 None succeeded_doc) = JNull"
    by blast
  show ?thesis
    using h1 c1 h2 h3 c2 h4 c3 h5 c4 h6 c5 unfolding b4 v5 by blast
qed

section \<open>Only a terminal state ends the resource-status poll\<close>

text \<open>
  C4. When a status fetch of \<^verbatim>\<open>_poll_deployment\<close> has read a provisioning state,
  the loop returns the fetched document if the state is one of Succeeded, Failed and
  Canceled, and otherwise sleeps and goes on; the only effect of a state that is not equal
  to the last one seen is the progress notice. Over a whole run: a fetch that finds a
  terminal state is the last one and its document is the result, every fetch before the
  last one found a state outside the terminal set, and a document that is returned carries
  a terminal state.
\<close>

theorem poll_exits_only_on_terminal_state:
  "(clock w - start_time < ticks_per_second * timeout
      \<and> respond e (sent w) rq = Response sc loc result \<and> \<not> is_http_error sc
      \<and> provisioning_state result = Inr status
    \<longrightarrow> poll_deployment_loop e rq timeout poll_interval start_time last_status w
          = (if py_in status terminal_states
             then Some (Inr result, snd (note_status status last_status (snd (http e rq w))))
             else poll_deployment_loop e rq timeout poll_interval start_time
                    (fst (note_status status last_status (snd (http e rq w))))
                    (sleep e poll_interval
                       (snd (note_status status last_status (snd (http e rq w))))))
        \<and> trace (snd (note_status status last_status (snd (http e rq w))))
            = (if py_eq status last_status then trace w @ [Sent rq]
               else trace w @ [Sent rq, StatusNotice status]))
   \<and> (0 < poll_interval
    \<longrightarrow> (\<exists>r w'. poll_deployment e d rg name timeout poll_interval w = Some (r, w')
          \<and> (\<forall>k. sent w \<le> k \<and> k < sent w'
                \<longrightarrow> (terminal_reply (respond e k (get_request d (deployment_url d rg name)))
                       \<longrightarrow> sent w' = Suc k
                           \<and> r = Inr (reply_body
                                  (respond e k (get_request d (deployment_url d rg name)))))
                  \<and> (Suc k < sent w'
                       \<longrightarrow> transient_reply
                             (respond e k (get_request d (deployment_url d rg name)))))
          \<and> (\<forall>doc. r = Inr doc \<and> doc \<noteq> JNull
                \<longrightarrow> (\<exists>status. provisioning_state doc = Inr status
                       \<and> py_in status terminal_states))))"
proof (intro conjI impI)
  assume a: "clock w - start_time < ticks_per_second * timeout
      \<and> respond e (sent w) rq = Response sc loc result \<and> \<not> is_http_error sc
      \<and> provisioning_state result = Inr status"
  then have a1: "clock w - start_time < ticks_per_second * timeout"
    and a2: "respond e (sent w) rq = Response sc loc result"
    and a3: "\<not> is_http_error sc"
    and a4: "provisioning_state result = Inr status"
    by blast+
  show "poll_deployment_loop e rq timeout poll_interval start_time last_status w
          = (if py_in status terminal_states
             then Some (Inr result, snd (note_status status last_status (snd (http e rq w))))
             else poll_deployment_loop e rq timeout poll_interval start_time
                    (fst (note_status status last_status (snd (http e rq w))))
                    (sleep e poll_interval
                       (snd (note_status status last_status (snd (http e rq w))))))"
    by (rule poll_deployment_loop_status [OF a1 a2 a3 a4])
  show "trace (snd (note_status status last_status (snd (http e rq w))))
            = (if py_eq status last_status then trace w @ [Sent rq]
               else trace w @ [Sent rq, StatusNotice status])"
    by simp
next
  let ?rq = "get_request d (deployment_url d rg name)"
  assume pos: "0 < poll_interval"
  obtain r w' where run: "poll_deployment e d rg name timeout poll_interval w = Some (r, w')"
    using poll_deployment_returns [OF pos] by blast
  then have loop: "poll_deployment_loop e ?rq timeout poll_interval (clock w) JNull w
                     = Some (r, w')"
    by (simp add: poll_deployment_def)
  have p1: "\<forall>k. sent w \<le> k \<and> k < sent w'
                \<longrightarrow> (terminal_reply (respond e k ?rq)
                       \<longrightarrow> sent w' = Suc k \<and> r = Inr (reply_body (respond e k ?rq)))
                  \<and> (Suc k < sent w' \<longrightarrow> transient_reply (respond e k ?rq))"
    using poll_deployment_loop_exit_is_terminal [OF loop] by simp
  have p2: "\<forall>doc. r = Inr doc \<and> doc \<noteq> JNull
                \<longrightarrow> (\<exists>status. provisioning_state doc = Inr status
                       \<and> py_in status terminal_states)"
    using poll_deployment_loop_document [OF loop] by simp
  from run p1 p2
  show "\<exists>r w'. poll_deployment e d rg name timeout poll_interval w = Some (r, w')
          \<and> (\<forall>k. sent w \<le> k \<and> k < sent w'
                \<longrightarrow> (terminal_reply (respond e k ?rq)
                       \<longrightarrow> sent w' = Suc k \<and> r = Inr (reply_body (respond e k ?rq)))
                  \<and> (Suc k < sent w' \<longrightarrow> transient_reply (respond e k ?rq)))
          \<and> (\<forall>doc. r = Inr doc \<and> doc \<noteq> JNull
                \<longrightarrow> (\<exists>status. provisioning_state doc = Inr status
                       \<and> py_in status terminal_states))"
    by blast
qed

theorem poll_exits_only_on_terminal_state_witness:
  "clock world0 - clock world0 < ticks_per_second * 1800
   \<and> respond happy_env (sent world0)
        (get_request some_deployer (deployment_url some_deployer ''rg'' ''dep''))
       = Response 200 None running_doc
   \<and> \<not> is_http_error 200
   \<and> provisioning_state running_doc = Inr (JStr ''Running'')
   \<and> \<not> py_in (JStr ''Running'') terminal_states
   \<and> poll_deployment_loop happy_env
        (get_request some_deployer (deployment_url some_deployer ''rg'' ''dep''))
        1800 10 (clock world0) JNull world0
       = poll_deployment_loop happy_env
           (get_request some_deployer (deployment_url some_deployer ''rg'' ''dep''))
           1800 10 (clock world0) (JStr ''Running'')
           (sleep happy_env 10
              (say (StatusNotice (JStr ''Running''))
                 (snd (http happy_env
                    (get_request some_deployer (deployment_url some_deployer ''rg'' ''dep''))
                    world0))))
   \<and> (0::nat) < 10
   \<and> terminal_reply (respond happy_env 2
        (get_request some_deployer (deployment_url some_deployer ''rg'' ''dep'')))
   \<and> (\<exists>w'. poll_deployment happy_env some_deployer ''rg'' ''dep'' 1800 10 world0
              = Some (Inr succeeded_doc, w')
         \<and> sent world0 \<le> 2 \<and> 2 < sent w' \<and> sent w' = 3
         \<and> Suc 0 < sent w'
         \<and> transient_reply (respond happy_env 0
              (get_request some_deployer (deployment_url some_deployer ''rg'' ''dep'')))
         \<and> succeeded_doc \<noteq> JNull
         \<and> (\<exists>status. provisioning_state succeeded_doc = Inr status
               \<and> py_in status terminal_states))"
proof -
  let ?rq = "get_request some_deployer (deployment_url some_deployer ''rg'' ''dep'')"
  have h1: "clock world0 - clock world0 < ticks_per_second * 1800"
    by (simp add: ticks_per_second_def)
  have h2: "respond happy_env (sent world0) ?rq = Response 200 None running_doc"
    by (simp add: happy_env_def world0_def)
  have h3: "\<not> is_http_error 200" by (simp add: is_http_error_def)
  have h4: "provisioning_state running_doc = Inr (JStr ''Running'')"
    by (simp add: provisioning_state_def running_doc_def)
  have h5: "\<not> py_in (JStr ''Running'') terminal_states"
    by (simp add: terminal_states_def)
  have pos: "(0::nat) < 10" by simp
  have t2: "terminal_reply (respond happy_env 2 ?rq)"
    by (simp add: terminal_reply_def happy_env_def succeeded_doc_def provisioning_state_def
          terminal_states_def is_http_error_def)
  have b2: "reply_body (respond happy_env 2 ?rq) = succeeded_doc"
    by (simp add: reply_body_def happy_env_def)
  have n: "map_option (sent \<circ> snd)
             (poll_deployment happy_env some_deployer ''rg'' ''dep'' 1800 10 world0) = Some 3"
    by (simp add: poll_deployment_def poll_steps world_defs happy_env_def quiet_env_def
          world0_def running_doc_def succeeded_doc_def)
  have w0: "sent world0 = 0" by (simp add: world0_def)
  have nj: "succeeded_doc \<noteq> JNull" by (simp add: succeeded_doc_def)
  note inst = poll_exits_only_on_terminal_state
      [of world0 "clock world0" 1800 happy_env ?rq 200 None running_doc "JStr ''Running''"
          10 JNull some_deployer "''rg''" "''dep''"]
  from inst h1 h2 h3 h4 h5
  have step: "poll_deployment_loop happy_env ?rq 1800 10 (clock world0) JNull world0
       = poll_deployment_loop happy_env ?rq 1800 10 (clock world0) (JStr ''Running'')
           (sleep happy_env 10
              (say (StatusNotice (JStr ''Running'')) (snd (http happy_env ?rq world0))))"
    by (simp add: note_status_def)
  from inst pos obtain r w' where
    run: "poll_deployment happy_env some_deployer ''rg'' ''dep'' 1800 10 world0 = Some (r, w')"
    and p1: "\<forall>k. sent world0 \<le> k \<and> k < sent w'
                \<longrightarrow> (terminal_reply (respond happy_env k ?rq)
                       \<longrightarrow> sent w' = Suc k \<and> r = Inr (reply_body (respond happy_env k ?rq)))
                  \<and> (Suc k < sent w' \<longrightarrow> transient_reply (respond happy_env k ?rq))"
    and p2: "\<forall>doc. r = Inr doc \<and> doc \<noteq> JNull
                \<longrightarrow> (\<exists>status. provisioning_state doc = Inr status
                       \<and> py_in status terminal_states)"
    by blast
  have s: "sent w' = 3" using n run by simp
  have r: "r = Inr succeeded_doc"
    using p1 [rule_format, of 2] t2 b2 s w0 by simp
  have tr0: "transient_reply (respond happy_env 0 ?rq)"
    using p1 [rule_format, of 0] s w0 by simp
  have fin: "\<exists>status. provisioning_state succeeded_doc = Inr status
               \<and> py_in status terminal_states"
    using p2 [rule_format, of succeeded_doc] r nj by simp
  show ?thesis
    using h1 h2 h3 h4 h5 step pos t2 run r s w0 tr0 nj fin by simp
qed

section \<open>The location-header poller\<close>

text \<open>
  C5. \<^verbatim>\<open>_poll_async_operation\<close> with the budget of its signature, 300 and 5 seconds.
  While less than 300 seconds have passed since the start, a fetch answered with status
  200 returns the payload, one answered with 202 sleeps for 5 seconds and goes on, and one
  answered with any other status returns \<^verbatim>\<open>None\<close>; once 300 seconds have passed the
  loop returns \<^verbatim>\<open>None\<close>. A run returns after at most 60 fetches, and a fetch of the
  run that is not answered with 202 is its last one and decides the result.
\<close>

theorem follow_up_status_decides:
  "(clock w - start_time < ticks_per_second * 300
      \<and> respond e (sent w) rq = Response sc loc payload
    \<longrightarrow> poll_async_loop e rq 300 5 start_time w
          = (if sc = 200 then Some (payload, snd (http e rq w))
             else if sc = 202 then
               poll_async_loop e rq 300 5 start_time (sleep e 5 (snd (http e rq w)))
             else Some (JNull, snd (http e rq w))))
   \<and> clock (sleep e 5 v) = clock v + 5 * ticks_per_second + oversleep e (sent v)
   \<and> trace (sleep e 5 v) = trace v @ [Slept 5]
   \<and> (\<not> clock w - start_time < ticks_per_second * 300
    \<longrightarrow> poll_async_loop e rq 300 5 start_time w = Some (JNull, w))
   \<and> (\<exists>p w'. poll_async_operation e d url 300 5 w = Some (p, w')
         \<and> sent w \<le> sent w' \<and> sent w' - sent w \<le> 60
         \<and> (\<forall>k. sent w \<le> k \<and> k < sent w'
                  \<and> \<not> follow_up_pending (respond e k (get_request d url))
               \<longrightarrow> sent w' = Suc k
                   \<and> p = follow_up_value (respond e k (get_request d url))))"
proof (intro conjI impI)
  assume a: "clock w - start_time < ticks_per_second * 300
      \<and> respond e (sent w) rq = Response sc loc payload"
  then have a1: "clock w - start_time < ticks_per_second * 300"
    and a2: "respond e (sent w) rq = Response sc loc payload"
    by blast+
  show "poll_async_loop e rq 300 5 start_time w
          = (if sc = 200 then Some (payload, snd (http e rq w))
             else if sc = 202 then
               poll_async_loop e rq 300 5 start_time (sleep e 5 (snd (http e rq w)))
             else Some (JNull, snd (http e rq w)))"
    by (rule poll_async_loop_response [OF a1 a2])
next
  show "clock (sleep e 5 v) = clock v + 5 * ticks_per_second + oversleep e (sent v)"
    by simp
next
  show "trace (sleep e 5 v) = trace v @ [Slept 5]"
    by simp
next
  assume "\<not> clock w - start_time < ticks_per_second * 300"
  then show "poll_async_loop e rq 300 5 start_time w = Some (JNull, w)"
    by (rule poll_async_loop_deadline)
next
  have pos: "(0::nat) < 5" by simp
  have c: "ceil_div 300 5 = 60" by (simp add: ceil_div_def)
  obtain p w' where run: "poll_async_operation e d url 300 5 w = Some (p, w')"
    and le: "sent w \<le> sent w'" and bd: "sent w' - sent w \<le> 60"
    using poll_async_operation_returns [OF pos, of e d url 300 w] c by auto
  from run have loop: "poll_async_loop e (get_request d url) 300 5 (clock w) w = Some (p, w')"
    by (simp add: poll_async_operation_def)
  have fin: "\<forall>k. sent w \<le> k \<and> k < sent w'
                  \<and> \<not> follow_up_pending (respond e k (get_request d url))
               \<longrightarrow> sent w' = Suc k
                   \<and> p = follow_up_value (respond e k (get_request d url))"
    using poll_async_loop_final [OF loop] by simp
  from run le bd fin
  show "\<exists>p w'. poll_async_operation e d url 300 5 w = Some (p, w')
         \<and> sent w \<le> sent w' \<and> sent w' - sent w \<le> 60
         \<and> (\<forall>k. sent w \<le> k \<and> k < sent w'
                  \<and> \<not> follow_up_pending (respond e k (get_request d url))
               \<longrightarrow> sent w' = Suc k
                   \<and> p = follow_up_value (respond e k (get_request d url)))"
    by blast
qed

theorem follow_up_status_decides_witness:
  "clock world0 - clock world0 < ticks_per_second * 300
   \<and> respond preview_env (sent world0) (get_request some_deployer ''https://follow.up/1'')
       = Response 202 None JNull
   \<and> poll_async_loop preview_env (get_request some_deployer ''https://follow.up/1'') 300 5
        (clock world0) world0
       = poll_async_loop preview_env (get_request some_deployer ''https://follow.up/1'') 300 5
           (clock world0)
           (sleep preview_env 5
              (snd (http preview_env (get_request some_deployer ''https://follow.up/1'') world0)))
   \<and> \<not> clock (world0\<lparr>clock := clock world0 + 300000\<rparr>) - clock world0
          < ticks_per_second * 300
   \<and> poll_async_loop preview_env (get_request some_deployer ''https://follow.up/1'') 300 5
        (clock world0) (world0\<lparr>clock := clock world0 + 300000\<rparr>)
       = Some (JNull, world0\<lparr>clock := clock world0 + 300000\<rparr>)
   \<and> \<not> follow_up_pending
          (respond preview_env 2 (get_request some_deployer ''https://follow.up/1''))
   \<and> (\<exists>w'. poll_async_operation preview_env some_deployer ''https://follow.up/1'' 300 5 world0
              = Some (preview_doc, w')
         \<and> sent world0 \<le> 2 \<and> 2 < sent w' \<and> sent w' = 3)"
proof -
  let ?rq = "get_request some_deployer ''https://follow.up/1''"
  let ?late = "world0\<lparr>clock := clock world0 + 300000\<rparr>"
  have h1: "clock world0 - clock world0 < ticks_per_second * 300"
    by (simp add: ticks_per_second_def)
  have h2: "respond preview_env (sent world0) ?rq = Response 202 None JNull"
    by (simp add: preview_env_def world0_def)
  have h3: "\<not> clock ?late - clock world0 < ticks_per_second * 300"
    by (simp add: ticks_per_second_def)
  have h4: "\<not> follow_up_pending (respond preview_env 2 ?rq)"
    by (simp add: follow_up_pending_def preview_env_def)
  have v: "follow_up_value (respond preview_env 2 ?rq) = preview_doc"
    by (simp add: follow_up_value_def preview_env_def)
  have n: "map_option (sent \<circ> snd)
             (poll_async_operation preview_env some_deployer ''https://follow.up/1'' 300 5 world0)
             = Some 3"
    by (simp add: poll_async_operation_def poll_steps world_defs preview_env_def quiet_env_def
          world0_def)
  have w0: "sent world0 = 0" by (simp add: world0_def)
  note early = follow_up_status_decides
      [of world0 "clock world0" preview_env ?rq 202 None JNull world0 some_deployer
          "''https://follow.up/1''"]
  note late = follow_up_status_decides
      [of ?late "clock world0" preview_env ?rq 202 None JNull world0 some_deployer
          "''https://follow.up/1''"]
  from early h1 h2
  have step: "poll_async_loop preview_env ?rq 300 5 (clock world0) world0
       = poll_async_loop preview_env ?rq 300 5 (clock world0)
           (sleep preview_env 5 (snd (http preview_env ?rq world0)))"
    by simp
  from late h3
  have dl: "poll_async_loop preview_env ?rq 300 5 (clock world0) ?late = Some (JNull, ?late)"
    by blast
  from early obtain p w' where
    run: "poll_async_operation preview_env some_deployer ''https://follow.up/1'' 300 5 world0
            = Some (p, w')"
    and fin: "\<forall>k. sent world0 \<le> k \<and> k < sent w' \<and> \<not> follow_up_pending (respond preview_env k ?rq)
               \<longrightarrow> sent w' = Suc k \<and> p = follow_up_value (respond preview_env k ?rq)"
    by blast
  have s: "sent w' = 3" using n run by simp
  have p: "p = preview_doc"
    using fin [rule_format, of 2] h4 v s w0 by simp
  show ?thesis
    using h1 h2 step h3 dl h4 run p s w0 by simp
qed

section \<open>The container-existence check\<close>

text \<open>
  C6, as the claim states it, fails: when the lookup cannot reach the control plane, and
  when it is answered with status 500, \<^verbatim>\<open>check_resource_group_exists\<close> returns
  \<^verbatim>\<open>False\<close>; no exception leaves the method.
\<close>

theorem container_check_swallows_failures:
  "fst (check_resource_group_exists down_env some_deployer ''rg-sentinel'' world0) = Inr False
   \<and> fst (check_resource_group_exists failed_env some_deployer ''rg-sentinel'' world0)
       = Inr False"
  by (simp add: check_resource_group_exists_def http_def down_env_def failed_env_def)

text \<open>
  C6 as amended. For every container name the check sends one request and returns a
  boolean: \<^verbatim>\<open>True\<close> exactly when the lookup is answered with status 200,
  \<^verbatim>\<open>False\<close> for every other status (not found, authentication failure, 5xx) and for
  a transport failure. It never raises.
\<close>

theorem container_check_is_status_200:
  "fst (check_resource_group_exists e d name w)
     = Inr (case respond e (sent w) (get_request d (resource_group_url d name)) of
              Raised msg \<Rightarrow> False
            | Response sc loc body \<Rightarrow> sc = 200)
   \<and> sent (snd (check_resource_group_exists e d name w)) = Suc (sent w)"
  by (simp add: check_resource_group_exists_def http_def split: reply.splits)

section \<open>The exit status of the driver\<close>

text \<open>
  C7 holds for the deployment path and fails for the what-if path. With a control plane
  that rejects the submission with status 400, \<^verbatim>\<open>validate_deployment\<close> returns
  \<^verbatim>\<open>False\<close>, but \<^verbatim>\<open>main\<close> does not look at that value and returns 0. With the
  same control plane and without \<^verbatim>\<open>-w\<close>, \<^verbatim>\<open>main\<close> returns 1, and with a
  deployment that succeeds it returns 0.
\<close>

theorem failed_what_if_exits_zero:
  "map_option fst
     (validate_deployment rejecting_env some_deployer ''rg-sentinel-prod''
        (JObj [(''resources'', JArr [])]) (JObj []) world0) = Some False
   \<and> map_option (exit_status \<circ> fst) (main rejecting_env what_if_args world0) = Some 0
   \<and> map_option (exit_status \<circ> fst)
        (main rejecting_env (what_if_args\<lparr>arg_what_if := False\<rparr>) world0) = Some 1
   \<and> map_option (exit_status \<circ> fst)
        (main happy_env (what_if_args\<lparr>arg_what_if := False\<rparr>) world0) = Some 0"
  by (simp add: main_defs world_defs poll_deployment_def poll_steps deployment_succeeded_def
        rejecting_env_def happy_env_def quiet_env_def what_if_args_def
        world0_def some_deployer_def running_doc_def succeeded_doc_def)

section \<open>The credential fallback\<close>

text \<open>
  C8. \<^verbatim>\<open>authenticate\<close> asks the Azure CLI credential first. If that yields a token
  the method succeeds and nothing else is asked. If it raises
  \<^verbatim>\<open>ClientAuthenticationError\<close> the default credential is asked, and the method
  succeeds exactly when that one yields a token. If it raises anything else the method
  fails and the default credential is never asked.
\<close>

theorem fallback_only_on_authentication_error:
  "(cli_get_token e = Inr token
    \<longrightarrow> authenticate e d w
          = (True, d\<lparr>credential := Some AzureCliCredential, access_token := Some token\<rparr>,
             say (AskedToken AzureCliCredential) w))
   \<and> (cli_get_token e = Inl x \<and> is_client_authentication_error x
    \<longrightarrow> fst (authenticate e d w) = (\<not> isl (default_get_token e))
        \<and> trace (snd (snd (authenticate e d w)))
            = trace w @ [AskedToken AzureCliCredential, AskedToken DefaultAzureCredential])
   \<and> (cli_get_token e = Inl x \<and> \<not> is_client_authentication_error x
    \<longrightarrow> fst (authenticate e d w) = False
        \<and> trace (snd (snd (authenticate e d w))) = trace w @ [AskedToken AzureCliCredential])"
  by (auto simp: authenticate_def Let_def say_def split: sum.splits)

theorem fallback_only_on_authentication_error_witness:
  "cli_get_token quiet_env = Inr ''token''
   \<and> authenticate quiet_env (init_deployer ''sub'' False) world0
       = (True,
          (init_deployer ''sub'' False)
            \<lparr>credential := Some AzureCliCredential, access_token := Some ''token''\<rparr>,
          say (AskedToken AzureCliCredential) world0)
   \<and> cli_get_token not_logged_in_env = Inl (ClientAuthenticationError ''Please run az login'')
   \<and> is_client_authentication_error (ClientAuthenticationError ''Please run az login'')
   \<and> fst (authenticate not_logged_in_env (init_deployer ''sub'' False) world0) = True
   \<and> trace (snd (snd (authenticate not_logged_in_env (init_deployer ''sub'' False) world0)))
       = [AskedToken AzureCliCredential, AskedToken DefaultAzureCredential]
   \<and> cli_get_token broken_cli_env = Inl (OtherException ''az: command timed out'')
   \<and> \<not> is_client_authentication_error (OtherException ''az: command timed out'')
   \<and> fst (authenticate broken_cli_env (init_deployer ''sub'' False) world0) = False
   \<and> trace (snd (snd (authenticate broken_cli_env (init_deployer ''sub'' False) world0)))
       = [AskedToken AzureCliCredential]"
proof -
  let ?d = "init_deployer ''sub'' False"
  have h1: "cli_get_token quiet_env = Inr ''token''" by (simp add: quiet_env_def)
  have h2: "cli_get_token not_logged_in_env
              = Inl (ClientAuthenticationError ''Please run az login'')"
    by (simp add: not_logged_in_env_def)
  have h3: "is_client_authentication_error (ClientAuthenticationError ''Please run az login'')"
    by (simp add: is_client_authentication_error_def)
  have h4: "cli_get_token broken_cli_env = Inl (OtherException ''az: command timed out'')"
    by (simp add: broken_cli_env_def)
  have h5: "\<not> is_client_authentication_error (OtherException ''az: command timed out'')"
    by (simp add: is_client_authentication_error_def)
  have d2: "\<not> isl (default_get_token not_logged_in_env)"
    by (simp add: not_logged_in_env_def)
  have t0: "trace world0 = []" by (simp add: world0_def)
  from fallback_only_on_authentication_error
    [where e = quiet_env and token = "''token''" and d = ?d and w = world0] h1
  have c1: "authenticate quiet_env ?d world0
       = (True, ?d\<lparr>credential := Some AzureCliCredential, access_token := Some ''token''\<rparr>,
          say (AskedToken AzureCliCredential) world0)"
    by blast
  from fallback_only_on_authentication_error
    [where e = not_logged_in_env and x = "ClientAuthenticationError ''Please run az login''"
       and d = ?d and w = world0] h2 h3
  have c2: "fst (authenticate not_logged_in_env ?d world0)
              = (\<not> isl (default_get_token not_logged_in_env))
        \<and> trace (snd (snd (authenticate not_logged_in_env ?d world0)))
            = trace world0 @ [AskedToken AzureCliCredential, AskedToken DefaultAzureCredential]"
    by blast
  from fallback_only_on_authentication_error
    [where e = broken_cli_env and x = "OtherException ''az: command timed out''"
       and d = ?d and w = world0] h4 h5
  have c3: "fst (authenticate broken_cli_env ?d world0) = False
        \<and> trace (snd (snd (authenticate broken_cli_env ?d world0)))
            = trace world0 @ [AskedToken AzureCliCredential]"
    by blast
  show ?thesis
    using h1 c1 h2 h3 c2 d2 h4 h5 c3 t0 by simp
qed

section \<open>Parameter loading\<close>

text \<open>
  C9. A parameter file that is a mapping without a top-level \<open>parameters\<close> key is
  returned as it is, and so is every document on which the test
  \<^verbatim>\<open>'parameters' in params\<close> is false. A file in the wrapped shape, whose \<open>parameters\<close> entry maps each
  name to a mapping, is turned into the mapping from each name to the \<open>value\<close> of its
  entry. So the first file of the specification gives \<open>{"x": 5}\<close>, and so does the second.
\<close>

theorem load_parameters_normalizes:
  "(json_load e path = Inr (JObj kvs) \<and> map_of kvs ''parameters'' = None
    \<longrightarrow> load_parameters e path = JObj kvs)
   \<and> (json_load e path = Inr doc \<and> py_contains doc ''parameters'' = Inr False
    \<longrightarrow> load_parameters e path = doc)
   \<and> (json_load e path = Inr (JObj kvs) \<and> map_of kvs ''parameters'' = Some (JObj ps)
        \<and> (\<forall>kv \<in> set ps. is_dict (snd kv))
    \<longrightarrow> load_parameters e path = JObj (map (\<lambda>kv. (fst kv, value_of (snd kv))) ps))
   \<and> (json_load e path = Inr wrapped_file \<longrightarrow> load_parameters e path = JObj [(''x'', JInt 5)])
   \<and> (json_load e path = Inr flat_file \<longrightarrow> load_parameters e path = flat_file)
   \<and> flat_file = JObj [(''x'', JInt 5)]"
proof (intro conjI impI)
  assume "json_load e path = Inr (JObj kvs) \<and> map_of kvs ''parameters'' = None"
  then show "load_parameters e path = JObj kvs"
    by (simp add: load_parameters_def)
next
  assume "json_load e path = Inr doc \<and> py_contains doc ''parameters'' = Inr False"
  then show "load_parameters e path = doc"
    by (simp add: load_parameters_def)
next
  assume a: "json_load e path = Inr (JObj kvs) \<and> map_of kvs ''parameters'' = Some (JObj ps)
        \<and> (\<forall>kv \<in> set ps. is_dict (snd kv))"
  then have "unwrap_values ps = Inr (map (\<lambda>kv. (fst kv, value_of (snd kv))) ps)"
    by (intro unwrap_values_dicts) blast
  then show "load_parameters e path = JObj (map (\<lambda>kv. (fst kv, value_of (snd kv))) ps)"
    using a by (simp add: load_parameters_def)
next
  assume "json_load e path = Inr wrapped_file"
  then show "load_parameters e path = JObj [(''x'', JInt 5)]"
    by (simp add: load_parameters_def wrapped_file_def)
next
  assume "json_load e path = Inr flat_file"
  then show "load_parameters e path = flat_file"
    by (simp add: load_parameters_def flat_file_def)
next
  show "flat_file = JObj [(''x'', JInt 5)]" by (simp add: flat_file_def)
qed

theorem load_parameters_normalizes_witness:
  "json_load (quiet_env\<lparr>json_load := (\<lambda>p. Inr flat_file)\<rparr>) ''parameters.json''
     = Inr (JObj [(''x'', JInt 5)])
   \<and> map_of [(''x'', JInt 5)] ''parameters'' = None
   \<and> py_contains (JObj [(''x'', JInt 5)]) ''parameters'' = Inr False
   \<and> load_parameters (quiet_env\<lparr>json_load := (\<lambda>p. Inr flat_file)\<rparr>) ''parameters.json''
       = JObj [(''x'', JInt 5)]
   \<and> json_load (quiet_env\<lparr>json_load := (\<lambda>p. Inr wrapped_file)\<rparr>) ''parameters.json''
       = Inr wrapped_file
   \<and> load_parameters (quiet_env\<lparr>json_load := (\<lambda>p. Inr wrapped_file)\<rparr>) ''parameters.json''
       = JObj [(''x'', JInt 5)]
   \<and> json_load (quiet_env\<lparr>json_load := (\<lambda>p. Inr arm_file)\<rparr>) ''parameters.json''
       = Inr arm_file
   \<and> is_dict (JObj [(''value'', JStr ''sentinel-ws'')])
   \<and> is_dict (JObj [(''value'', JInt 90)])
   \<and> load_parameters (quiet_env\<lparr>json_load := (\<lambda>p. Inr arm_file)\<rparr>) ''parameters.json''
       = JObj [(''workspaceName'', JStr ''sentinel-ws''), (''retentionInDays'', JInt 90)]"
proof -
  let ?flat = "quiet_env\<lparr>json_load := (\<lambda>p. Inr flat_file)\<rparr>"
  let ?wrapped = "quiet_env\<lparr>json_load := (\<lambda>p. Inr wrapped_file)\<rparr>"
  let ?arm = "quiet_env\<lparr>json_load := (\<lambda>p. Inr arm_file)\<rparr>"
  let ?ps = "[(''workspaceName'', JObj [(''value'', JStr ''sentinel-ws'')]),
              (''retentionInDays'', JObj [(''value'', JInt 90)])]"
  let ?akvs = "[(''$schema'', JStr ''https://schema.management.azure.com/deploymentParameters.json''),
           (''contentVersion'', JStr ''1.0.0.0''),
           (''parameters'', JObj ?ps)]"
  have f1: "json_load ?flat ''parameters.json'' = Inr (JObj [(''x'', JInt 5)])"
    by (simp add: flat_file_def)
  have f2: "map_of [(''x'', JInt 5)] ''parameters'' = None" by simp
  have f3: "py_contains (JObj [(''x'', JInt 5)]) ''parameters'' = Inr False" by simp
  have w1: "json_load ?wrapped ''parameters.json'' = Inr wrapped_file" by simp
  have a1: "json_load ?arm ''parameters.json'' = Inr arm_file" by simp
  have a1': "json_load ?arm ''parameters.json'' = Inr (JObj ?akvs)"
    by (simp add: arm_file_def)
  have a2: "map_of ?akvs ''parameters'' = Some (JObj ?ps)" by simp
  have a3: "\<forall>kv \<in> set ?ps. is_dict (snd kv)" by (simp add: is_dict_def)
  from load_parameters_normalizes
    [where e = ?flat and path = "''parameters.json''" and kvs = "[(''x'', JInt 5)]"] f1 f2
  have c1: "load_parameters ?flat ''parameters.json'' = JObj [(''x'', JInt 5)]"
    by blast
  from load_parameters_normalizes
    [where e = ?flat and path = "''parameters.json''" and doc = "JObj [(''x'', JInt 5)]"] f1 f3
  have c1': "load_parameters ?flat ''parameters.json'' = JObj [(''x'', JInt 5)]"
    by blast
  from load_parameters_normalizes [where e = ?wrapped and path = "''parameters.json''"] w1
  have c2: "load_parameters ?wrapped ''parameters.json'' = JObj [(''x'', JInt 5)]"
    by blast
  from load_parameters_normalizes
    [where e = ?arm and path = "''parameters.json''" and kvs = ?akvs and ps = ?ps] a1' a2 a3
  have c3: "load_parameters ?arm ''parameters.json''
              = JObj (map (\<lambda>kv. (fst kv, value_of (snd kv))) ?ps)"
    by blast
  have c3': "load_parameters ?arm ''parameters.json''
       = JObj [(''workspaceName'', JStr ''sentinel-ws''), (''retentionInDays'', JInt 90)]"
    using c3 by (simp add: value_of_def)
  have a4: "is_dict (JObj [(''value'', JStr ''sentinel-ws'')])
            \<and> is_dict (JObj [(''value'', JInt 90)])"
    using a3 by simp
  show ?thesis
    using f1 f2 f3 c1 c1' w1 c2 a1 a4 c3' by blast
qed

section \<open>A validation accepted without a follow-up URL\<close>

text \<open>
  C10. When the what-if submission is answered with status 202 and the response has no
  \<^verbatim>\<open>Location\<close> header, \<^verbatim>\<open>validate_deployment\<close> returns \<^verbatim>\<open>False\<close>, and the
  submission is the only request it has sent: nothing is polled.
\<close>

theorem accepted_without_location_fails:
  "respond e (sent w)
      \<lparr>rq_method = POST,
       rq_url = whatif_url d rg (clock w div ticks_per_second),
       rq_headers = get_headers d,
       rq_json = Some (deployment_body template parameters)\<rparr> = Response 202 None body
   \<longrightarrow> validate_deployment e d rg template parameters w
         = Some (False,
             w\<lparr>clock := clock w + latency e (sent w),
               sent := sent w + 1,
               trace := trace w @
                 [Sent \<lparr>rq_method = POST,
                        rq_url = whatif_url d rg (clock w div ticks_per_second),
                        rq_headers = get_headers d,
                        rq_json = Some (deployment_body template parameters)\<rparr>]\<rparr>)"
  by (simp add: validate_deployment_def http_def is_http_error_def)

theorem accepted_without_location_fails_witness:
  "respond no_location_env (sent world0)
      \<lparr>rq_method = POST,
       rq_url = whatif_url some_deployer ''rg-sentinel'' (clock world0 div ticks_per_second),
       rq_headers = get_headers some_deployer,
       rq_json = Some (deployment_body (JObj [(''resources'', JArr [])]) (JObj []))\<rparr>
     = Response 202 None JNull
   \<and> map_option fst
        (validate_deployment no_location_env some_deployer ''rg-sentinel''
           (JObj [(''resources'', JArr [])]) (JObj []) world0) = Some False
   \<and> map_option (sent \<circ> snd)
        (validate_deployment no_location_env some_deployer ''rg-sentinel''
           (JObj [(''resources'', JArr [])]) (JObj []) world0) = Some (sent world0 + 1)"
proof -
  let ?rq = "\<lparr>rq_method = POST,
       rq_url = whatif_url some_deployer ''rg-sentinel'' (clock world0 div ticks_per_second),
       rq_headers = get_headers some_deployer,
       rq_json = Some (deployment_body (JObj [(''resources'', JArr [])]) (JObj []))\<rparr>"
  have h: "respond no_location_env (sent world0) ?rq = Response 202 None JNull"
    by (simp add: no_location_env_def)
  from accepted_without_location_fails
    [of no_location_env world0 some_deployer "''rg-sentinel''"
        "JObj [(''resources'', JArr [])]" "JObj []" JNull] h
  have "validate_deployment no_location_env some_deployer ''rg-sentinel''
           (JObj [(''resources'', JArr [])]) (JObj []) world0
         = Some (False,
             world0\<lparr>clock := clock world0 + latency no_location_env (sent world0),
               sent := sent world0 + 1,
               trace := trace world0 @ [Sent ?rq]\<rparr>)"
    by blast
  then show ?thesis using h by simp
qed

end
